theory Spec2Isabelle
  imports Main
begin

section \<open>Python values and failures\<close>

text \<open>
  The three exception classes the package raises. An operation that can raise returns
  \<open>error + 'a\<close>, with \<open>Inl\<close> carrying the exception. Every \<open>raise\<close> of the modelled
  methods comes before the first assignment of the method, so on \<open>Inl\<close> the state is the
  one the method was called with.
\<close>

datatype error = TypeError | ValueError | IndexError

definition bindE :: "error + 'a \<Rightarrow> ('a \<Rightarrow> error + 'b) \<Rightarrow> error + 'b" where
  "bindE m f = (case m of Inl e \<Rightarrow> Inl e | Inr x \<Rightarrow> f x)"

fun mapE :: "('a \<Rightarrow> error + 'b) \<Rightarrow> 'a list \<Rightarrow> error + 'b list" where
  "mapE f [] = Inr []"
| "mapE f (x # xs) = bindE (f x) (\<lambda>y. bindE (mapE f xs) (\<lambda>ys. Inr (y # ys)))"

text \<open>
  Subscripting a Python list: an index below zero counts from the end, and an index
  outside the list raises \<open>IndexError\<close>.
\<close>

definition norm_index :: "nat \<Rightarrow> int \<Rightarrow> error + nat" where
  "norm_index n i =
     (let k = (if i < 0 then i + int n else i)
      in if k < 0 \<or> int n \<le> k then Inl IndexError else Inr (nat k))"

definition getitem :: "'a list \<Rightarrow> int \<Rightarrow> error + 'a" where
  "getitem xs i = bindE (norm_index (length xs) i) (\<lambda>k. Inr (xs ! k))"

text \<open>\<open>arr[i][j]\<close>\<close>

definition getitem2 :: "'a list list \<Rightarrow> int \<Rightarrow> int \<Rightarrow> error + 'a" where
  "getitem2 arr i j = bindE (getitem arr i) (\<lambda>row. getitem row j)"

text \<open>
  \<open>arr[i][j] = v\<close>. No two rows of a grid of a World are the same list object (every
  row is built by its own comprehension or generator step), so the grids are values.
\<close>

definition setitem2 :: "'a list list \<Rightarrow> int \<Rightarrow> int \<Rightarrow> 'a \<Rightarrow> error + 'a list list" where
  "setitem2 arr i j v =
     bindE (norm_index (length arr) i) (\<lambda>k.
     bindE (norm_index (length (arr ! k)) j) (\<lambda>l.
       Inr (arr[k := (arr ! k)[l := v]])))"

section \<open>\<open>_karel.py\<close>: array helpers\<close>

text \<open>
  \<open>_2d_arr_size\<close>: the loop over the row lengths, with \<open>jsize\<close> as the accumulator.
\<close>

fun arr_jsize :: "int option \<Rightarrow> 'a list list \<Rightarrow> error + int option" where
  "arr_jsize jsize [] = Inr jsize"
| "arr_jsize jsize (row # rows) =
     (case jsize of
        None \<Rightarrow> arr_jsize (Some (int (length row))) rows
      | Some j \<Rightarrow> if j \<noteq> int (length row) then Inl ValueError else arr_jsize jsize rows)"

definition two_d_arr_size :: "'a list list \<Rightarrow> error + int \<times> int option" where
  "two_d_arr_size arr = bindE (arr_jsize None arr) (\<lambda>jsize. Inr (int (length arr), jsize))"

text \<open>\<open>_ensure_size\<close>: the loop over the row lengths.\<close>

fun ensure_rows :: "'a list list \<Rightarrow> int \<Rightarrow> error + unit" where
  "ensure_rows [] jsize = Inr ()"
| "ensure_rows (row # rows) jsize =
     (if int (length row) \<noteq> jsize then Inl ValueError else ensure_rows rows jsize)"

definition ensure_size :: "'a list list \<Rightarrow> int \<Rightarrow> int \<Rightarrow> error + unit" where
  "ensure_size arr isize jsize =
     (if int (length arr) \<noteq> isize then Inl ValueError else ensure_rows arr jsize)"

section \<open>Direction\<close>

datatype Direction = north | south | east | west

fun turned_left :: "Direction \<Rightarrow> Direction" where
  "turned_left north = west"
| "turned_left south = east"
| "turned_left east = north"
| "turned_left west = south"

fun turned_right :: "Direction \<Rightarrow> Direction" where
  "turned_right north = east"
| "turned_right south = west"
| "turned_right east = south"
| "turned_right west = north"

fun turned_around :: "Direction \<Rightarrow> Direction" where
  "turned_around north = south"
| "turned_around south = north"
| "turned_around east = west"
| "turned_around west = east"

section \<open>AvenueAndStreet\<close>

text \<open>
  The fields are Python ints. \<open>AvenueAndStreet_new\<close> is \<open>__new__\<close>, the only way the
  package builds a position; \<open>pos_ok\<close> is what it establishes.
\<close>

record AvenueAndStreet =
  avenue :: int
  street :: int

definition AvenueAndStreet_new :: "int \<Rightarrow> int \<Rightarrow> error + AvenueAndStreet" where
  "AvenueAndStreet_new a s =
     (if a < 0 \<or> s < 0 then Inl ValueError else Inr \<lparr>avenue = a, street = s\<rparr>)"

definition pos_ok :: "AvenueAndStreet \<Rightarrow> bool" where
  "pos_ok p = (0 \<le> avenue p \<and> 0 \<le> street p)"

definition with_avenue :: "AvenueAndStreet \<Rightarrow> int \<Rightarrow> error + AvenueAndStreet" where
  "with_avenue self a = AvenueAndStreet_new a (street self)"

definition with_street :: "AvenueAndStreet \<Rightarrow> int \<Rightarrow> error + AvenueAndStreet" where
  "with_street self s = AvenueAndStreet_new (avenue self) s"

fun moved :: "AvenueAndStreet \<Rightarrow> Direction \<Rightarrow> error + AvenueAndStreet" where
  "moved self north = with_street self (street self + 1)"
| "moved self south = with_street self (street self - 1)"
| "moved self east = with_avenue self (avenue self + 1)"
| "moved self west = with_avenue self (avenue self - 1)"

text \<open>\<open>self._in_bounds(position)\<close>, with \<open>self\<close> a size.\<close>

definition in_bounds :: "AvenueAndStreet \<Rightarrow> AvenueAndStreet \<Rightarrow> bool" where
  "in_bounds self p = (avenue p < avenue self \<and> street p < street self)"

section \<open>Karel\<close>

record Karel =
  position :: AvenueAndStreet
  direction :: Direction

definition Karel_moved_to :: "Karel \<Rightarrow> AvenueAndStreet \<Rightarrow> Karel" where
  "Karel_moved_to self p = \<lparr>position = p, direction = direction self\<rparr>"

definition Karel_moved :: "Karel \<Rightarrow> error + Karel" where
  "Karel_moved self =
     bindE (moved (position self) (direction self)) (\<lambda>p. Inr (Karel_moved_to self p))"

definition Karel_turned :: "Karel \<Rightarrow> Direction \<Rightarrow> Karel" where
  "Karel_turned self d = \<lparr>position = position self, direction = d\<rparr>"

definition Karel_turned_left :: "Karel \<Rightarrow> Karel" where
  "Karel_turned_left self = Karel_turned self (turned_left (direction self))"

definition Karel_turned_right :: "Karel \<Rightarrow> Karel" where
  "Karel_turned_right self = Karel_turned self (turned_right (direction self))"

definition Karel_turned_around :: "Karel \<Rightarrow> Karel" where
  "Karel_turned_around self = Karel_turned self (turned_around (direction self))"

section \<open>\<open>_color.py\<close>\<close>

datatype RGB = RGB int int int

definition RGB_new :: "int \<Rightarrow> int \<Rightarrow> int \<Rightarrow> error + RGB" where
  "RGB_new r g b =
     (if \<not> (0 \<le> r \<and> r \<le> 255 \<and> 0 \<le> g \<and> g \<le> 255 \<and> 0 \<le> b \<and> b \<le> 255)
      then Inl ValueError else Inr (RGB r g b))"

text \<open>The module-level table \<open>color\<close>, with the ten entries it is created with.\<close>

definition color :: "(string \<times> RGB) list" where
  "color =
     [(''red'', RGB 255 0 0), (''green'', RGB 0 255 0), (''blue'', RGB 0 0 255),
      (''yellow'', RGB 255 255 0), (''cyan'', RGB 0 255 255), (''orange'', RGB 255 165 0),
      (''white'', RGB 255 255 255), (''black'', RGB 0 0 0), (''gray'', RGB 204 204 204),
      (''purple'', RGB 155 48 255)]"

text \<open>
  An argument of type \<open>str | RGB\<close>. \<open>from_str\<close> hands a string that is neither a name of
  the table nor a hex form to Python's own parser (\<open>ast.parse\<close>) and matches the tree
  against a call of \<open>rgb\<close> with three integer constants. The parser is not part of the
  package: what the \<open>match\<close> statement finds for the lower-cased string comes with the
  string, as \<open>rgb_call r g b\<close> when the pattern matches and \<open>no_match\<close> when the text does
  not parse or is anything else. Strings are ASCII.
\<close>

datatype ast_outcome = no_match | rgb_call int int int

datatype color_arg = color_value RGB | color_text string ast_outcome

definition lower_char :: "char \<Rightarrow> char" where
  "lower_char c =
     (let n = (of_char c :: nat) in if 65 \<le> n \<and> n \<le> 90 then char_of (n + 32) else c)"

definition all_hex_digits :: "char list \<Rightarrow> bool" where
  "all_hex_digits ss = list_all (\<lambda>i. i \<in> set ''0123456789abcdefABCDEF'') ss"

text \<open>\<open>int(s, 16)\<close> on a string of hex digits.\<close>

definition hex_digit :: "char \<Rightarrow> int" where
  "hex_digit c =
     (let n = (of_char c :: int)
      in if n \<le> 57 then n - 48 else if n \<le> 70 then n - 55 else n - 87)"

fun int16 :: "char list \<Rightarrow> int" where
  "int16 s = foldl (\<lambda>acc c. 16 * acc + hex_digit c) 0 s"

text \<open>The two hex cases of the \<open>match list(c)\<close> statement; \<open>None\<close> when neither applies.\<close>

definition hex_form :: "char list \<Rightarrow> (error + RGB) option" where
  "hex_form c =
     (case c of
        [h, r, g, b] \<Rightarrow>
          if h = CHR ''#'' \<and> all_hex_digits [r, g, b]
          then Some (RGB_new (int16 [r, r]) (int16 [g, g]) (int16 [b, b])) else None
      | [h, r1, r2, g1, g2, b1, b2] \<Rightarrow>
          if h = CHR ''#'' \<and> all_hex_digits [r1, r2, g1, g2, b1, b2]
          then Some (RGB_new (int16 [r1, r2]) (int16 [g1, g2]) (int16 [b1, b2])) else None
      | _ \<Rightarrow> None)"

fun from_str :: "color_arg \<Rightarrow> error + RGB" where
  "from_str (color_value c) = Inr c"
| "from_str (color_text s parsed) =
     (let c = map lower_char s in
      case map_of color c of
        Some v \<Rightarrow> Inr v
      | None \<Rightarrow>
         (case hex_form c of
            Some res \<Rightarrow> res
          | None \<Rightarrow>
             (case parsed of
                rgb_call r g b \<Rightarrow> RGB_new r g b
              | no_match \<Rightarrow> Inl ValueError)))"

section \<open>World\<close>

text \<open>
  The five slots of a World. The grids are stored north to south: row 0 is the
  northmost street.
\<close>

record World =
  karel :: Karel
  ball_counts :: "int list list"
  horizontal_walls :: "bool list list"
  vertical_walls :: "bool list list"
  colors :: "RGB list list"

text \<open>
  Where the source reads \<open>jsize\<close> after the test \<open>jsize is None\<close> has failed, the model
  writes \<open>case jsize of Some n \<Rightarrow> n | None \<Rightarrow> 0\<close>; the \<open>None\<close> branch is never taken.
\<close>

text \<open>The \<open>size\<close> property: \<open>AvenueAndStreet(len(self._ball_counts[0]), len(self._ball_counts))\<close>.\<close>

definition World_size :: "World \<Rightarrow> error + AvenueAndStreet" where
  "World_size self =
     bindE (getitem (ball_counts self) 0) (\<lambda>row0.
       AvenueAndStreet_new (int (length row0)) (int (length (ball_counts self))))"

subsection \<open>\<open>__init__\<close>\<close>

text \<open>
  The arguments after \<open>index\<close>, \<open>bool\<close> and \<open>typefilt\<close> have been applied: a grid of ints,
  optional grids of bools, an optional grid of \<open>str | RGB\<close>. The three calls of
  \<open>_ensure_size\<close> all receive \<open>self._horizontal_walls\<close>, as in the source.
\<close>

definition World_init ::
  "Karel \<Rightarrow> int list list \<Rightarrow> bool list list option \<Rightarrow> bool list list option \<Rightarrow>
   color_arg list list option \<Rightarrow> error + World" where
  "World_init karel_arg ball_counts_arg horizontal_walls_arg vertical_walls_arg colors_arg =
     bindE (two_d_arr_size ball_counts_arg) (\<lambda>(isize, jsize_opt).
       if isize = 0 \<or> jsize_opt = Some 0 \<or> jsize_opt = None then Inl ValueError
       else
         let jsize = (case jsize_opt of Some n \<Rightarrow> n | None \<Rightarrow> 0);
             hw = (case horizontal_walls_arg of
                     None \<Rightarrow> replicate (nat (isize - 1)) (replicate (nat jsize) False)
                   | Some g \<Rightarrow> g)
         in
         bindE (ensure_size hw (isize - 1) jsize) (\<lambda>_.
           let vw = (case vertical_walls_arg of
                       None \<Rightarrow> replicate (nat isize) (replicate (nat (jsize - 1)) False)
                     | Some g \<Rightarrow> g)
           in
           bindE (ensure_size hw isize (jsize - 1)) (\<lambda>_.
             let cs = (case colors_arg of
                         None \<Rightarrow>
                           replicate (nat isize)
                             (replicate (nat jsize) (color_text ''white'' no_match))
                       | Some g \<Rightarrow> g)
             in
             bindE (mapE (mapE from_str) cs) (\<lambda>cols.
               bindE (ensure_size hw isize jsize) (\<lambda>_.
                 let self = \<lparr>karel = karel_arg, ball_counts = ball_counts_arg,
                             horizontal_walls = hw, vertical_walls = vw, colors = cols\<rparr>
                 in
                 bindE (World_size self) (\<lambda>sz.
                   if \<not> in_bounds sz (position karel_arg) then Inl ValueError
                   else Inr self))))))"

subsection \<open>The \<open>size\<close> setter\<close>

text \<open>
  The four \<open>if\<close> blocks of the setter, each reading \<open>self.size\<close> from the grids as they
  are when the block is reached. \<open>del xs[:n]\<close> with \<open>0 < n\<close> is \<open>drop n\<close>,
  \<open>xs[:0] = rows\<close> puts the rows in front, \<open>del row[-n:]\<close> with \<open>0 < n\<close> keeps the first
  \<open>len(row) - n\<close> entries, and \<open>[x] * n\<close> is \<open>replicate n x\<close>.
\<close>

definition shrink_street :: "AvenueAndStreet \<Rightarrow> World \<Rightarrow> error + World" where
  "shrink_street new self =
     bindE (World_size self) (\<lambda>sz.
       if street new < street sz then
         let to_delete = nat (street sz - street new) in
         Inr (self\<lparr>ball_counts := drop to_delete (ball_counts self),
                   horizontal_walls := drop to_delete (horizontal_walls self),
                   vertical_walls := drop to_delete (vertical_walls self),
                   colors := drop to_delete (colors self)\<rparr>)
       else Inr self)"

definition grow_street :: "AvenueAndStreet \<Rightarrow> World \<Rightarrow> error + World" where
  "grow_street new self =
     bindE (World_size self) (\<lambda>sz.
       if street new > street sz then
         let to_add = nat (street new - street sz);
             s1 = self\<lparr>ball_counts :=
                        replicate to_add (replicate (nat (avenue sz)) 0) @ ball_counts self\<rparr>
         in
         bindE (World_size s1) (\<lambda>sz1.
           let s2 = s1\<lparr>horizontal_walls :=
                          replicate to_add (replicate (nat (avenue sz1)) False)
                          @ horizontal_walls s1\<rparr>
           in
           bindE (World_size s2) (\<lambda>sz2.
             let s3 = s2\<lparr>vertical_walls :=
                            replicate to_add (replicate (nat (avenue sz2 - 1)) False)
                            @ vertical_walls s2\<rparr>
             in
             bindE (World_size s3) (\<lambda>sz3.
               Inr (s3\<lparr>colors :=
                          replicate to_add (replicate (nat (avenue sz3)) (RGB 255 255 255))
                          @ colors s3\<rparr>))))
       else Inr self)"

definition del_tail :: "nat \<Rightarrow> 'a list \<Rightarrow> 'a list" where
  "del_tail n row = take (length row - n) row"

definition shrink_avenue :: "AvenueAndStreet \<Rightarrow> World \<Rightarrow> error + World" where
  "shrink_avenue new self =
     bindE (World_size self) (\<lambda>sz.
       if avenue new < avenue sz then
         let to_delete = nat (avenue sz - avenue new) in
         Inr (self\<lparr>ball_counts := map (del_tail to_delete) (ball_counts self),
                   horizontal_walls := map (del_tail to_delete) (horizontal_walls self),
                   vertical_walls := map (del_tail to_delete) (vertical_walls self),
                   colors := map (del_tail to_delete) (colors self)\<rparr>)
       else Inr self)"

definition grow_avenue :: "AvenueAndStreet \<Rightarrow> World \<Rightarrow> error + World" where
  "grow_avenue new self =
     bindE (World_size self) (\<lambda>sz.
       if avenue new > avenue sz then
         let to_add = nat (avenue new - avenue sz) in
         Inr (self\<lparr>ball_counts := map (\<lambda>i. i @ replicate to_add 0) (ball_counts self),
                   horizontal_walls :=
                     map (\<lambda>i. i @ replicate to_add False) (horizontal_walls self),
                   vertical_walls :=
                     map (\<lambda>i. i @ replicate to_add False) (vertical_walls self),
                   colors :=
                     map (\<lambda>i. i @ replicate to_add (RGB 255 255 255)) (colors self)\<rparr>)
       else Inr self)"

definition size_setter :: "World \<Rightarrow> AvenueAndStreet \<Rightarrow> error + World" where
  "size_setter self new =
     (if street new = 0 \<or> avenue new = 0 then Inl ValueError
      else if \<not> in_bounds new (position (karel self)) then Inl ValueError
      else
        bindE (shrink_street new self) (\<lambda>s1.
        bindE (grow_street new s1) (\<lambda>s2.
        bindE (shrink_avenue new s2) (\<lambda>s3.
          grow_avenue new s3))))"

text \<open>\<open>_list_index\<close>\<close>

definition list_index :: "World \<Rightarrow> AvenueAndStreet \<Rightarrow> error + int \<times> int" where
  "list_index self p =
     bindE (World_size self) (\<lambda>sz. Inr (street sz - street p - 1, avenue p))"

subsection \<open>The \<open>karel\<close> setter and the grid setters\<close>

definition karel_setter :: "World \<Rightarrow> Karel \<Rightarrow> error + World" where
  "karel_setter self new =
     bindE (World_size self) (\<lambda>sz.
       if \<not> in_bounds sz (position new) then Inl ValueError
       else Inr (self\<lparr>karel := new\<rparr>))"

definition ball_counts_setter :: "World \<Rightarrow> int list list option \<Rightarrow> error + World" where
  "ball_counts_setter self new_arg =
     (case new_arg of
        None \<Rightarrow>
          bindE (World_size self) (\<lambda>sz.
            Inr (self\<lparr>ball_counts :=
                   replicate (nat (avenue sz)) (replicate (nat (street sz)) 0)\<rparr>))
      | Some new \<Rightarrow>
          bindE (two_d_arr_size new) (\<lambda>(isize, jsize).
            if isize = 0 \<or> jsize = Some 0 \<or> jsize = None then Inl ValueError
            else
              bindE (AvenueAndStreet_new (case jsize of Some n \<Rightarrow> n | None \<Rightarrow> 0) isize) (\<lambda>sz.
              bindE (size_setter self sz) (\<lambda>s1.
                Inr (s1\<lparr>ball_counts := new\<rparr>)))))"

definition horizontal_walls_setter :: "World \<Rightarrow> bool list list option \<Rightarrow> error + World" where
  "horizontal_walls_setter self new_arg =
     (case new_arg of
        None \<Rightarrow>
          bindE (World_size self) (\<lambda>sz.
            Inr (self\<lparr>horizontal_walls :=
                   replicate (nat (avenue sz - 1)) (replicate (nat (street sz)) False)\<rparr>))
      | Some new \<Rightarrow>
          bindE (two_d_arr_size new) (\<lambda>(isize, jsize).
            bindE (if isize = 0 \<or> jsize = None
                   then bindE (World_size self) (\<lambda>sz. Inr (avenue sz))
                   else Inr (case jsize of Some n \<Rightarrow> n | None \<Rightarrow> 0)) (\<lambda>jsize1.
              bindE (AvenueAndStreet_new jsize1 (isize + 1)) (\<lambda>sz.
              bindE (size_setter self sz) (\<lambda>s1.
                Inr (s1\<lparr>horizontal_walls := new\<rparr>))))))"

definition vertical_walls_setter :: "World \<Rightarrow> bool list list option \<Rightarrow> error + World" where
  "vertical_walls_setter self new_arg =
     (case new_arg of
        None \<Rightarrow>
          bindE (World_size self) (\<lambda>sz.
            Inr (self\<lparr>vertical_walls :=
                   replicate (nat (avenue sz)) (replicate (nat (street sz - 1)) False)\<rparr>))
      | Some new \<Rightarrow>
          bindE (two_d_arr_size new) (\<lambda>(isize, jsize).
            if isize = 0 \<or> jsize = None then Inl ValueError
            else
              bindE (AvenueAndStreet_new ((case jsize of Some n \<Rightarrow> n | None \<Rightarrow> 0) + 1) isize) (\<lambda>sz.
              bindE (size_setter self sz) (\<lambda>s1.
                Inr (s1\<lparr>vertical_walls := new\<rparr>)))))"

definition colors_setter :: "World \<Rightarrow> color_arg list list option \<Rightarrow> error + World" where
  "colors_setter self new_arg =
     (case new_arg of
        None \<Rightarrow>
          bindE (World_size self) (\<lambda>sz.
            Inr (self\<lparr>colors :=
                   replicate (nat (avenue sz)) (replicate (nat (street sz)) (RGB 255 255 255))\<rparr>))
      | Some g \<Rightarrow>
          bindE (mapE (mapE from_str) g) (\<lambda>new.
          bindE (two_d_arr_size new) (\<lambda>(isize, jsize).
            if isize = 0 \<or> jsize = Some 0 \<or> jsize = None then Inl ValueError
            else
              bindE (AvenueAndStreet_new (case jsize of Some n \<Rightarrow> n | None \<Rightarrow> 0) isize) (\<lambda>sz.
              bindE (size_setter self sz) (\<lambda>s1.
                Inr (s1\<lparr>colors := new\<rparr>))))))"

subsection \<open>Cell queries and mutations\<close>

text \<open>
  A position argument is \<open>None\<close> (the robot's position) or a position; a direction
  argument likewise.
\<close>

definition move_karel :: "World \<Rightarrow> AvenueAndStreet \<Rightarrow> error + World" where
  "move_karel self p = karel_setter self \<lparr>position = p, direction = direction (karel self)\<rparr>"

definition rotate_karel :: "World \<Rightarrow> Direction \<Rightarrow> error + World" where
  "rotate_karel self d = karel_setter self \<lparr>position = position (karel self), direction = d\<rparr>"

definition pos_or_karel :: "World \<Rightarrow> AvenueAndStreet option \<Rightarrow> AvenueAndStreet" where
  "pos_or_karel self pos = (case pos of None \<Rightarrow> position (karel self) | Some p \<Rightarrow> p)"

definition dir_or_karel :: "World \<Rightarrow> Direction option \<Rightarrow> Direction" where
  "dir_or_karel self dir = (case dir of None \<Rightarrow> direction (karel self) | Some d \<Rightarrow> d)"

definition ball_count :: "World \<Rightarrow> AvenueAndStreet option \<Rightarrow> error + int" where
  "ball_count self pos =
     (let p = pos_or_karel self pos in
      bindE (World_size self) (\<lambda>sz.
        if \<not> in_bounds sz p then Inl IndexError
        else bindE (list_index self p) (\<lambda>(i, j). getitem2 (ball_counts self) i j)))"

definition set_ball_count :: "World \<Rightarrow> int \<Rightarrow> AvenueAndStreet option \<Rightarrow> error + World" where
  "set_ball_count self new pos =
     (let p = pos_or_karel self pos in
      bindE (World_size self) (\<lambda>sz.
        if \<not> in_bounds sz p then Inl IndexError
        else if new < 0 then Inl ValueError
        else
          bindE (list_index self p) (\<lambda>(i, j).
          bindE (setitem2 (ball_counts self) i j new) (\<lambda>bc.
            Inr (self\<lparr>ball_counts := bc\<rparr>)))))"

definition color_at :: "World \<Rightarrow> AvenueAndStreet option \<Rightarrow> error + RGB" where
  "color_at self pos =
     (let p = pos_or_karel self pos in
      bindE (World_size self) (\<lambda>sz.
        if \<not> in_bounds sz p then Inl IndexError
        else bindE (list_index self p) (\<lambda>(i, j). getitem2 (colors self) i j)))"

text \<open>\<open>paint\<close>: \<open>typefilt(new, RGB)\<close> rejects a string.\<close>

definition paint :: "World \<Rightarrow> color_arg \<Rightarrow> AvenueAndStreet option \<Rightarrow> error + World" where
  "paint self new pos =
     (let p = pos_or_karel self pos in
      bindE (World_size self) (\<lambda>sz.
        if \<not> in_bounds sz p then Inl IndexError
        else
          bindE (list_index self p) (\<lambda>(i, j).
          bindE (case new of color_value c \<Rightarrow> Inr c | color_text _ _ \<Rightarrow> Inl TypeError) (\<lambda>c.
          bindE (setitem2 (colors self) i j c) (\<lambda>cs.
            Inr (self\<lparr>colors := cs\<rparr>))))))"

text \<open>
  \<open>is_blocked\<close>: north is turned into south of the row above, west into east of the
  column to the left. After the \<open>south\<close> block the direction is east or west, so the
  last \<open>if\<close> of the source is always entered.
\<close>

definition is_blocked ::
  "World \<Rightarrow> AvenueAndStreet option \<Rightarrow> Direction option \<Rightarrow> error + bool" where
  "is_blocked self pos dir =
     (let p = pos_or_karel self pos; d = dir_or_karel self dir in
      bindE (World_size self) (\<lambda>sz.
        if \<not> in_bounds sz p then Inl IndexError
        else
          bindE (list_index self p) (\<lambda>(i0, j0).
            let i = (if d = north then i0 - 1 else i0);
                d1 = (if d = north then south else d)
            in
            if d1 = south then
              (if \<not> (0 \<le> i \<and> i < street sz - 1) then Inr True
               else getitem2 (horizontal_walls self) i j0)
            else
              let j = (if d1 = west then j0 - 1 else j0) in
              (if \<not> (0 \<le> j \<and> j < avenue sz - 1) then Inr True
               else getitem2 (vertical_walls self) i j))))"

definition is_clear ::
  "World \<Rightarrow> AvenueAndStreet option \<Rightarrow> Direction option \<Rightarrow> error + bool" where
  "is_clear self pos dir = bindE (is_blocked self pos dir) (\<lambda>b. Inr (\<not> b))"

definition set_is_blocked ::
  "World \<Rightarrow> bool \<Rightarrow> AvenueAndStreet option \<Rightarrow> Direction option \<Rightarrow> error + World" where
  "set_is_blocked self wall pos dir =
     (let p = pos_or_karel self pos; d = dir_or_karel self dir in
      bindE (World_size self) (\<lambda>sz.
        if \<not> in_bounds sz p then Inl IndexError
        else
          bindE (list_index self p) (\<lambda>(i0, j0).
            let i = (if d = north then i0 - 1 else i0);
                d1 = (if d = north then south else d)
            in
            if d1 = south then
              (if \<not> (0 \<le> i \<and> i < street sz - 1) then Inl IndexError
               else bindE (setitem2 (horizontal_walls self) i j0 wall) (\<lambda>hw.
                      Inr (self\<lparr>horizontal_walls := hw\<rparr>)))
            else
              let j = (if d1 = west then j0 - 1 else j0) in
              (if \<not> (0 \<le> j \<and> j < avenue sz - 1) then Inl IndexError
               else bindE (setitem2 (vertical_walls self) i j wall) (\<lambda>vw.
                      Inr (self\<lparr>vertical_walls := vw\<rparr>))))))"

definition set_is_clear ::
  "World \<Rightarrow> bool \<Rightarrow> AvenueAndStreet option \<Rightarrow> Direction option \<Rightarrow> error + World" where
  "set_is_clear self wall pos dir = set_is_blocked self (\<not> wall) pos dir"

subsection \<open>Robot operations\<close>

definition turn_left :: "World \<Rightarrow> error + World" where
  "turn_left self = karel_setter self (Karel_turned_left (karel self))"

definition turn_right :: "World \<Rightarrow> error + World" where
  "turn_right self = karel_setter self (Karel_turned_right (karel self))"

definition turn_around :: "World \<Rightarrow> error + World" where
  "turn_around self = karel_setter self (Karel_turned_around (karel self))"

definition put_ball :: "World \<Rightarrow> AvenueAndStreet option \<Rightarrow> error + World" where
  "put_ball self pos =
     (let p = pos_or_karel self pos in
      bindE (ball_count self (Some p)) (\<lambda>n. set_ball_count self (n + 1) (Some p)))"

definition take_ball :: "World \<Rightarrow> AvenueAndStreet option \<Rightarrow> error + World" where
  "take_ball self pos =
     (let p = pos_or_karel self pos in
      bindE (ball_count self (Some p)) (\<lambda>n. set_ball_count self (n - 1) (Some p)))"

definition balls_present :: "World \<Rightarrow> AvenueAndStreet option \<Rightarrow> error + bool" where
  "balls_present self pos =
     (let p = pos_or_karel self pos in
      bindE (ball_count self (Some p)) (\<lambda>n. Inr (n \<noteq> 0)))"

definition no_balls_present :: "World \<Rightarrow> AvenueAndStreet option \<Rightarrow> error + bool" where
  "no_balls_present self pos = bindE (balls_present self pos) (\<lambda>b. Inr (\<not> b))"

definition front_is_clear :: "World \<Rightarrow> error + bool" where
  "front_is_clear self = is_clear self None None"

definition left_is_clear :: "World \<Rightarrow> error + bool" where
  "left_is_clear self = is_clear self None (Some (turned_left (direction (karel self))))"

definition right_is_clear :: "World \<Rightarrow> error + bool" where
  "right_is_clear self = is_clear self None (Some (turned_right (direction (karel self))))"

definition front_is_blocked :: "World \<Rightarrow> error + bool" where
  "front_is_blocked self = is_blocked self None None"

definition left_is_blocked :: "World \<Rightarrow> error + bool" where
  "left_is_blocked self = is_blocked self None (Some (turned_left (direction (karel self))))"

definition right_is_blocked :: "World \<Rightarrow> error + bool" where
  "right_is_blocked self = is_blocked self None (Some (turned_right (direction (karel self))))"

definition move :: "World \<Rightarrow> error + World" where
  "move self =
     bindE (front_is_blocked self) (\<lambda>blocked.
       if blocked then Inl ValueError
       else bindE (Karel_moved (karel self)) (\<lambda>k. karel_setter self k))"

definition facing_north :: "World \<Rightarrow> bool" where
  "facing_north self = (direction (karel self) = north)"

definition facing_south :: "World \<Rightarrow> bool" where
  "facing_south self = (direction (karel self) = south)"

definition facing_east :: "World \<Rightarrow> bool" where
  "facing_east self = (direction (karel self) = east)"

definition facing_west :: "World \<Rightarrow> bool" where
  "facing_west self = (direction (karel self) = west)"

definition not_facing_north :: "World \<Rightarrow> bool" where
  "not_facing_north self = (\<not> facing_north self)"

definition not_facing_south :: "World \<Rightarrow> bool" where
  "not_facing_south self = (\<not> facing_south self)"

definition not_facing_east :: "World \<Rightarrow> bool" where
  "not_facing_east self = (\<not> facing_east self)"

definition not_facing_west :: "World \<Rightarrow> bool" where
  "not_facing_west self = (\<not> facing_west self)"

text \<open>\<open>color_is\<close>: \<open>self.color_at() == RGB.from_str(color)\<close>, the left operand first.\<close>

definition color_is :: "World \<Rightarrow> color_arg \<Rightarrow> error + bool" where
  "color_is self c =
     bindE (color_at self None) (\<lambda>here. bindE (from_str c) (\<lambda>wanted. Inr (here = wanted)))"

subsection \<open>\<open>globals\<close>\<close>

text \<open>
  The dict that \<open>globals\<close> returns maps a name to a method bound to this World, or, for
  \<open>color\<close>, to the colour table. A bound method is the World and the method's name.
\<close>

datatype binding = bound_method World string | color_dict "(string \<times> RGB) list"

definition normal_table :: "World \<Rightarrow> (string \<times> binding) list" where
  "normal_table self =
     [(''move'', bound_method self ''move''),
      (''turn_left'', bound_method self ''turn_left''),
      (''put_ball'', bound_method self ''put_ball''),
      (''take_ball'', bound_method self ''take_ball''),
      (''balls_present'', bound_method self ''balls_present''),
      (''no_balls_present'', bound_method self ''no_balls_present''),
      (''front_is_clear'', bound_method self ''front_is_clear''),
      (''left_is_clear'', bound_method self ''left_is_clear''),
      (''right_is_clear'', bound_method self ''right_is_clear''),
      (''front_is_blocked'', bound_method self ''front_is_blocked''),
      (''left_is_blocked'', bound_method self ''left_is_blocked''),
      (''right_is_blocked'', bound_method self ''right_is_blocked''),
      (''facing_north'', bound_method self ''facing_north''),
      (''facing_south'', bound_method self ''facing_south''),
      (''facing_east'', bound_method self ''facing_east''),
      (''facing_west'', bound_method self ''facing_west''),
      (''not_facing_north'', bound_method self ''not_facing_north''),
      (''not_facing_south'', bound_method self ''not_facing_south''),
      (''not_facing_east'', bound_method self ''not_facing_east''),
      (''not_facing_west'', bound_method self ''not_facing_west'')]"

definition globals :: "World \<Rightarrow> string \<Rightarrow> error + (string \<rightharpoonup> binding)" where
  "globals self mode =
     (if mode \<notin> {''normal'', ''super'', ''ultra''} then Inl ValueError
      else
        let result = map_of (normal_table self);
            result1 =
              (if mode \<in> {''super'', ''ultra''}
               then result(''turn_right'' \<mapsto> bound_method self ''turn_right'',
                           ''turn_around'' \<mapsto> bound_method self ''turn_around'')
               else result);
            result2 =
              (if mode = ''ultra''
               then result1(''color'' \<mapsto> color_dict color,
                            ''paint'' \<mapsto> bound_method self ''paint'',
                            ''color_is'' \<mapsto> bound_method self ''color_is'')
               else result1)
        in Inr result2)"

subsection \<open>The invariants of a World\<close>

text \<open>
  The four invariants of the data model: the grids have the shapes that the size
  derived from \<open>ball_counts\<close> asks for, no ball count is negative, the robot is in
  bounds, and neither dimension is zero.
\<close>

definition rows :: "World \<Rightarrow> nat" where
  "rows self = length (ball_counts self)"

definition cols :: "World \<Rightarrow> nat" where
  "cols self = (case ball_counts self of [] \<Rightarrow> 0 | row0 # _ \<Rightarrow> length row0)"

definition World_inv :: "World \<Rightarrow> bool" where
  "World_inv self =
     (1 \<le> rows self \<and> 1 \<le> cols self \<and>
      list_all (\<lambda>row. length row = cols self) (ball_counts self) \<and>
      length (horizontal_walls self) = rows self - 1 \<and>
      list_all (\<lambda>row. length row = cols self) (horizontal_walls self) \<and>
      length (vertical_walls self) = rows self \<and>
      list_all (\<lambda>row. length row = cols self - 1) (vertical_walls self) \<and>
      length (colors self) = rows self \<and>
      list_all (\<lambda>row. length row = cols self) (colors self) \<and>
      list_all (list_all (\<lambda>n. 0 \<le> n)) (ball_counts self) \<and>
      pos_ok (position (karel self)) \<and>
      avenue (position (karel self)) < int (cols self) \<and>
      street (position (karel self)) < int (rows self))"

subsection \<open>Concrete worlds\<close>

text \<open>The default of the \<open>karel\<close> parameter: \<open>Karel(AvenueAndStreet(0, 0))\<close>, facing east.\<close>

definition Karel_default :: Karel where
  "Karel_default = \<lparr>position = \<lparr>avenue = 0, street = 0\<rparr>, direction = east\<rparr>"

text \<open>
  The slots that \<open>__init__\<close> assigns for \<open>ball_counts=[[0,0],[0,0]]\<close> and the defaults:
  two streets and two avenues, no walls, every cell white, the robot at the origin.
\<close>

definition world_2x2 :: World where
  "world_2x2 =
     \<lparr>karel = Karel_default, ball_counts = [[0, 0], [0, 0]],
      horizontal_walls = [[False, False]], vertical_walls = [[False], [False]],
      colors = [[RGB 255 255 255, RGB 255 255 255], [RGB 255 255 255, RGB 255 255 255]]\<rparr>"

subsection \<open>The tiers as the specification lists them\<close>

text \<open>
  The names of the three tiers, written from the specification: the twenty operations
  of the normal tier, the two turns that super adds, and the three names that ultra
  adds.
\<close>

definition spec_normal_names :: "string set" where
  "spec_normal_names =
     {''move'', ''turn_left'', ''put_ball'', ''take_ball'', ''balls_present'',
      ''no_balls_present'', ''front_is_clear'', ''left_is_clear'', ''right_is_clear'',
      ''front_is_blocked'', ''left_is_blocked'', ''right_is_blocked'',
      ''facing_north'', ''facing_south'', ''facing_east'', ''facing_west'',
      ''not_facing_north'', ''not_facing_south'', ''not_facing_east'', ''not_facing_west''}"

definition spec_super_names :: "string set" where
  "spec_super_names = spec_normal_names \<union> {''turn_right'', ''turn_around''}"

definition spec_ultra_names :: "string set" where
  "spec_ultra_names = spec_super_names \<union> {''color'', ''paint'', ''color_is''}"

subsection \<open>Outward edges\<close>

text \<open>
  An edge of a cell is outward when the direction leaves the grid: north on the
  northmost street, south on street 0, east on the eastmost avenue, west on avenue 0.
\<close>

definition outward_edge :: "AvenueAndStreet \<Rightarrow> AvenueAndStreet \<Rightarrow> Direction \<Rightarrow> bool" where
  "outward_edge sz p d =
     (case d of
        north \<Rightarrow> street p = street sz - 1
      | south \<Rightarrow> street p = 0
      | east \<Rightarrow> avenue p = avenue sz - 1
      | west \<Rightarrow> avenue p = 0)"

subsection \<open>Stored walls\<close>

text \<open>
  The entry of the wall grids behind an inner edge: the wall north of a cell is the
  horizontal wall of the row above, the wall west of it the vertical wall of the
  column to the left.
\<close>

definition stored_wall :: "World \<Rightarrow> AvenueAndStreet \<Rightarrow> Direction \<Rightarrow> bool" where
  "stored_wall w p d =
     (case d of
        north \<Rightarrow> horizontal_walls w ! nat (int (rows w) - street p - 2) ! nat (avenue p)
      | south \<Rightarrow> horizontal_walls w ! nat (int (rows w) - street p - 1) ! nat (avenue p)
      | east \<Rightarrow> vertical_walls w ! nat (int (rows w) - street p - 1) ! nat (avenue p)
      | west \<Rightarrow> vertical_walls w ! nat (int (rows w) - street p - 1) ! nat (avenue p - 1))"

text \<open>One street, two avenues, no walls, the robot at the origin facing east.\<close>

definition world_2x1 :: World where
  "world_2x1 =
     \<lparr>karel = Karel_default, ball_counts = [[0, 0]],
      horizontal_walls = [], vertical_walls = [[False]],
      colors = [[RGB 255 255 255, RGB 255 255 255]]\<rparr>"

text \<open>One cell holding one ball.\<close>

definition world_1x1_one_ball :: World where
  "world_1x1_one_ball =
     \<lparr>karel = Karel_default, ball_counts = [[1]], horizontal_walls = [],
      vertical_walls = [[]], colors = [[RGB 255 255 255]]\<rparr>"

subsection \<open>The resized grids in closed form\<close>

text \<open>
  What the four blocks of the \<open>size\<close> setter leave behind, written in one piece:
  \<open>fit_north\<close> drops rows from the front of a grid or puts fill rows in front of it,
  \<open>fit_east\<close> cuts a row at its end or extends it. \<open>size_setter_resized\<close> below proves
  that the setter computes \<open>resized\<close>.
\<close>

definition fit_north :: "int \<Rightarrow> 'a list \<Rightarrow> 'a list list \<Rightarrow> 'a list list" where
  "fit_north ds fill_row grid =
     (if ds < 0 then drop (nat (- ds)) grid else replicate (nat ds) fill_row @ grid)"

definition fit_east :: "int \<Rightarrow> 'a \<Rightarrow> 'a list \<Rightarrow> 'a list" where
  "fit_east da fill row =
     (if da < 0 then take (length row - nat (- da)) row else row @ replicate (nat da) fill)"

definition resized :: "World \<Rightarrow> AvenueAndStreet \<Rightarrow> World" where
  "resized w new =
     (let ds = street new - int (rows w); da = avenue new - int (cols w) in
      w\<lparr>ball_counts :=
          map (fit_east da 0) (fit_north ds (replicate (cols w) 0) (ball_counts w)),
        horizontal_walls :=
          map (fit_east da False) (fit_north ds (replicate (cols w) False) (horizontal_walls w)),
        vertical_walls :=
          map (fit_east da False)
            (fit_north ds (replicate (cols w - 1) False) (vertical_walls w)),
        colors :=
          map (fit_east da (RGB 255 255 255))
            (fit_north ds (replicate (cols w) (RGB 255 255 255)) (colors w))\<rparr>)"

text \<open>One street, two avenues, three balls and a red cell at the origin, a wall east of it.\<close>

definition world_2x1_wall :: World where
  "world_2x1_wall =
     \<lparr>karel = Karel_default, ball_counts = [[3, 0]],
      horizontal_walls = [], vertical_walls = [[True]],
      colors = [[RGB 255 0 0, RGB 255 255 255]]\<rparr>"

section \<open>Construction\<close>

lemma arr_jsize_error: "arr_jsize js arr = Inl e \<Longrightarrow> e = ValueError"
  by (induction arr arbitrary: js) (auto split: option.splits if_splits)

lemma two_d_arr_size_error: "two_d_arr_size arr = Inl e \<Longrightarrow> e = ValueError"
  by (auto simp add: two_d_arr_size_def bindE_def split: sum.splits dest: arr_jsize_error)

lemma ensure_rows_error: "ensure_rows arr jsize = Inl e \<Longrightarrow> e = ValueError"
  by (induction arr) (auto split: if_splits)

lemma ensure_size_error: "ensure_size arr isize jsize = Inl e \<Longrightarrow> e = ValueError"
  by (auto simp add: ensure_size_def split: if_splits dest: ensure_rows_error)

lemma ensure_size_length: "ensure_size arr isize jsize = Inr u \<Longrightarrow> int (length arr) = isize"
  by (simp add: ensure_size_def split: if_splits)

text \<open>
  The second call of \<open>_ensure_size\<close> asks the horizontal walls for \<open>isize\<close> rows, after
  the first call has asked them for \<open>isize - 1\<close>: no argument gets past both, so
  \<open>__init__\<close> raises \<open>ValueError\<close> whatever it is given.
\<close>

lemma World_init_always_raises:
  "World_init k bc hw vw cs = Inl ValueError"
proof (cases "two_d_arr_size bc")
  case (Inl e)
  then have "e = ValueError" by (rule two_d_arr_size_error)
  with Inl show ?thesis by (simp add: World_init_def bindE_def)
next
  case (Inr sz)
  obtain isize jsize where sz: "sz = (isize, jsize)" by (cases sz)
  show ?thesis
  proof (cases "isize = 0 \<or> jsize = Some 0 \<or> jsize = None")
    case True
    with Inr sz show ?thesis by (auto simp add: World_init_def bindE_def)
  next
    case False
    then obtain n where n: "jsize = Some n" by auto
    define h where
      "h = (case hw of None \<Rightarrow> replicate (nat (isize - 1)) (replicate (nat n) False)
            | Some g \<Rightarrow> g)"
    show ?thesis
    proof (cases "ensure_size h (isize - 1) n")
      case (Inl e)
      then have "e = ValueError" by (rule ensure_size_error)
      with Inl Inr sz n False show ?thesis
        by (simp add: World_init_def bindE_def h_def Let_def)
    next
      case (Inr u)
      then have "int (length h) = isize - 1" by (rule ensure_size_length)
      then have "ensure_size h isize (n - 1) = Inl ValueError"
        by (simp add: ensure_size_def)
      with Inr \<open>two_d_arr_size bc = Inr sz\<close> sz n False show ?thesis
        by (simp add: World_init_def bindE_def h_def Let_def)
    qed
  qed
qed

text \<open>
  C1. Constructing a World from a non-empty rectangular ball-count grid, the default
  walls and colours and an in-bounds robot should succeed. For the one-cell grid
  \<open>[[0]]\<close> and the default robot, \<open>__init__\<close> raises \<open>ValueError\<close>: the shape check named
  \<open>vertical_walls\<close> is made on the horizontal walls.
\<close>

theorem World_init_rejects_1x1:
  "World_init Karel_default [[0]] None None None = Inl ValueError"
  by (simp add: World_init_def two_d_arr_size_def bindE_def ensure_size_def)

section \<open>Positions\<close>

text \<open>
  C3, as the claim states it: \<open>moved\<close> would return the position one street south of
  the origin, with a negative street. The constructor that \<open>moved\<close> goes through
  rejects it.
\<close>

theorem moved_negative_counterexample:
  "moved \<lparr>avenue = 0, street = 0\<rparr> south = Inl ValueError"
  by (simp add: with_street_def AvenueAndStreet_new_def)

text \<open>
  C3, amended. For every position \<open>p\<close> and direction \<open>d\<close>, \<open>p.moved(d)\<close> is the position
  offset by exactly 1 along the axis of \<open>d\<close> (north: street + 1, south: street - 1,
  east: avenue + 1, west: avenue - 1) when the offset coordinate is not negative, and
  raises \<open>ValueError\<close> when it is (south from street 0, west from avenue 0); a position
  that \<open>moved\<close> returns has no negative coordinate.
\<close>

theorem moved_offset_or_rejected:
  "pos_ok p \<Longrightarrow>
   moved p d =
     (if (d = south \<and> street p = 0) \<or> (d = west \<and> avenue p = 0) then Inl ValueError
      else Inr (case d of
                  north \<Rightarrow> \<lparr>avenue = avenue p, street = street p + 1\<rparr>
                | south \<Rightarrow> \<lparr>avenue = avenue p, street = street p - 1\<rparr>
                | east \<Rightarrow> \<lparr>avenue = avenue p + 1, street = street p\<rparr>
                | west \<Rightarrow> \<lparr>avenue = avenue p - 1, street = street p\<rparr>)) \<and>
   (\<forall>q. moved p d = Inr q \<longrightarrow> pos_ok q)"
  by (cases d) (auto simp add: pos_ok_def with_street_def with_avenue_def AvenueAndStreet_new_def)

theorem moved_offset_or_rejected_witness:
  "pos_ok \<lparr>avenue = 2, street = 0\<rparr> \<and>
   moved \<lparr>avenue = 2, street = 0\<rparr> south = Inl ValueError \<and>
   moved \<lparr>avenue = 2, street = 0\<rparr> west = Inr \<lparr>avenue = 1, street = 0\<rparr>"
proof -
  have ok: "pos_ok \<lparr>avenue = 2, street = 0\<rparr>" by (simp add: pos_ok_def)
  from moved_offset_or_rejected [OF ok, of south] moved_offset_or_rejected [OF ok, of west] ok
  show ?thesis by simp
qed

section \<open>Painting\<close>

text \<open>
  C4, as the claim states it: the construction from \<open>[[0,0],[0,0]]\<close> would succeed and
  \<open>paint("red")\<close> would colour the robot's cell. \<open>paint\<close> takes a colour value only: on
  the 2 by 2 world the string is refused with \<open>TypeError\<close> (and \<open>__init__\<close> raises for
  this grid as for every other).
\<close>

theorem paint_red_counterexample:
  "World_init Karel_default [[0, 0], [0, 0]] None None None = Inl ValueError \<and>
   paint world_2x2 (color_text ''red'' no_match) None = Inl TypeError"
  by (simp add: World_init_def two_d_arr_size_def bindE_def ensure_size_def
      paint_def world_2x2_def Karel_default_def pos_or_karel_def World_size_def getitem_def
      norm_index_def AvenueAndStreet_new_def in_bounds_def list_index_def)

text \<open>
  C4, amended. In the 2 by 2 World with ball counts \<open>[[0,0],[0,0]]\<close>, no walls, white
  cells and the robot at (0,0) facing east, painting the robot's cell with the colour
  value that \<open>"red"\<close> resolves to, \<open>RGB(255, 0, 0)\<close>, succeeds, and \<open>color_at()\<close> then
  returns \<open>RGB(255, 0, 0)\<close>.
\<close>

theorem paint_red_value_then_color_at:
  "World_inv world_2x2 \<and>
   from_str (color_text ''red'' no_match) = Inr (RGB 255 0 0) \<and>
   (\<exists>w. paint world_2x2 (color_value (RGB 255 0 0)) None = Inr w \<and>
        color_at w None = Inr (RGB 255 0 0))"
  by (simp add: paint_def world_2x2_def Karel_default_def pos_or_karel_def World_size_def
      getitem_def norm_index_def AvenueAndStreet_new_def in_bounds_def list_index_def bindE_def
      setitem2_def color_at_def getitem2_def World_inv_def rows_def cols_def pos_ok_def
      color_def lower_char_def)

section \<open>The command tiers\<close>

lemma dom_normal_table: "dom (map_of (normal_table w)) = spec_normal_names"
  by (simp add: dom_map_of_conv_image_fst normal_table_def spec_normal_names_def)

lemma card_spec_normal_names: "card spec_normal_names = 20"
  by (simp add: spec_normal_names_def)

lemma globals_normal: "\<exists>m. globals w ''normal'' = Inr m \<and> dom m = spec_normal_names"
  by (simp add: globals_def dom_normal_table)

lemma globals_super: "\<exists>m. globals w ''super'' = Inr m \<and> dom m = spec_super_names"
  by (auto simp add: globals_def dom_normal_table spec_super_names_def)

lemma globals_ultra: "\<exists>m. globals w ''ultra'' = Inr m \<and> dom m = spec_ultra_names"
  by (auto simp add: globals_def dom_normal_table spec_super_names_def spec_ultra_names_def)

lemma normal_psubset_super: "spec_normal_names \<subset> spec_super_names"
proof -
  have "''turn_right'' \<notin> spec_normal_names" by (simp add: spec_normal_names_def)
  moreover have "''turn_right'' \<in> spec_super_names" by (simp add: spec_super_names_def)
  moreover have "spec_normal_names \<subseteq> spec_super_names" unfolding spec_super_names_def by blast
  ultimately show ?thesis by blast
qed

lemma super_psubset_ultra: "spec_super_names \<subset> spec_ultra_names"
proof -
  have "''paint'' \<notin> spec_super_names" by (simp add: spec_normal_names_def spec_super_names_def)
  moreover have "''paint'' \<in> spec_ultra_names" by (simp add: spec_ultra_names_def)
  moreover have "spec_super_names \<subseteq> spec_ultra_names" unfolding spec_ultra_names_def by blast
  ultimately show ?thesis by blast
qed

lemma globals_other: "mode \<notin> {''normal'', ''super'', ''ultra''} \<Longrightarrow> globals w mode = Inl ValueError"
  by (simp add: globals_def)

text \<open>
  C8. For every World, \<open>globals("normal")\<close> binds exactly the twenty listed names,
  \<open>globals("super")\<close> those and \<open>turn_right\<close>, \<open>turn_around\<close>, \<open>globals("ultra")\<close> those
  and \<open>color\<close>, \<open>paint\<close>, \<open>color_is\<close>; the three sets of names are strictly nested; and
  any other tier name raises \<open>ValueError\<close>.
\<close>

theorem globals_tiers:
  "(\<exists>m. globals w ''normal'' = Inr m \<and> dom m = spec_normal_names) \<and>
   (\<exists>m. globals w ''super'' = Inr m \<and> dom m = spec_super_names) \<and>
   (\<exists>m. globals w ''ultra'' = Inr m \<and> dom m = spec_ultra_names) \<and>
   card spec_normal_names = 20 \<and>
   spec_normal_names \<subset> spec_super_names \<and> spec_super_names \<subset> spec_ultra_names \<and>
   (mode \<notin> {''normal'', ''super'', ''ultra''} \<longrightarrow> globals w mode = Inl ValueError)"
  using globals_normal globals_super globals_ultra card_spec_normal_names
    normal_psubset_super super_psubset_ultra globals_other
  by blast

theorem globals_tiers_witness:
  "''Normal'' \<notin> {''normal'', ''super'', ''ultra''} \<and> globals world_2x2 ''Normal'' = Inl ValueError \<and>
   (\<exists>m. globals world_2x2 ''ultra'' = Inr m \<and> dom m = spec_ultra_names)"
  using globals_tiers [of world_2x2 "''Normal''"] by simp

section \<open>Reading and writing cells\<close>

lemma bindE_Inr [simp]: "bindE (Inr x) f = f x"
  by (simp add: bindE_def)

lemma bindE_Inl [simp]: "bindE (Inl e) f = Inl e"
  by (simp add: bindE_def)

lemma norm_index_in_range: "0 \<le> i \<Longrightarrow> i < int n \<Longrightarrow> norm_index n i = Inr (nat i)"
  by (simp add: norm_index_def)

lemma getitem_in_range: "0 \<le> i \<Longrightarrow> i < int (length xs) \<Longrightarrow> getitem xs i = Inr (xs ! nat i)"
  by (simp add: getitem_def norm_index_in_range)

lemma getitem2_in_range:
  "0 \<le> i \<Longrightarrow> i < int (length arr) \<Longrightarrow> 0 \<le> j \<Longrightarrow> j < int (length (arr ! nat i)) \<Longrightarrow>
   getitem2 arr i j = Inr (arr ! nat i ! nat j)"
  by (simp add: getitem2_def getitem_in_range)

lemma setitem2_in_range:
  "0 \<le> i \<Longrightarrow> i < int (length arr) \<Longrightarrow> 0 \<le> j \<Longrightarrow> j < int (length (arr ! nat i)) \<Longrightarrow>
   setitem2 arr i j v = Inr (arr[nat i := (arr ! nat i)[nat j := v]])"
  by (simp add: setitem2_def norm_index_in_range)

lemma row_length: "list_all (\<lambda>row. length row = n) arr \<Longrightarrow> k < length arr \<Longrightarrow> length (arr ! k) = n"
  by (simp add: list_all_length)

lemma World_size_nonempty:
  "ball_counts w = row0 # rest \<Longrightarrow>
   World_size w = Inr \<lparr>avenue = int (length row0), street = int (length (ball_counts w))\<rparr>"
  by (simp add: World_size_def getitem_def norm_index_def AvenueAndStreet_new_def)

lemma World_size_inv:
  "World_inv w \<Longrightarrow> World_size w = Inr \<lparr>avenue = int (cols w), street = int (rows w)\<rparr>"
  by (cases "ball_counts w") (simp_all add: World_inv_def rows_def cols_def World_size_nonempty)

lemma list_index_size:
  "World_size w = Inr sz \<Longrightarrow> list_index w p = Inr (street sz - street p - 1, avenue p)"
  by (simp add: list_index_def)

lemma outward_edge_iff_neighbour_outside:
  assumes "pos_ok p" and "pos_ok sz" and "in_bounds sz p"
  shows "outward_edge sz p d =
         (case moved p d of Inl e \<Rightarrow> True | Inr q \<Rightarrow> \<not> in_bounds sz q)"
  using assms
  by (cases d)
     (auto simp add: outward_edge_def pos_ok_def in_bounds_def with_street_def with_avenue_def
        AvenueAndStreet_new_def)

section \<open>Walls at the boundary\<close>

text \<open>
  C7. For every in-bounds position and every direction that points out of the grid
  there (both given or taken from the robot), \<open>is_blocked\<close> returns \<open>True\<close> without
  raising, and \<open>set_is_blocked\<close> raises \<open>IndexError\<close>, which is not the \<open>ValueError\<close> of
  a failed construction, before it has assigned anything.
\<close>

theorem outward_edge_blocked_not_settable:
  assumes "World_size w = Inr sz"
    and "in_bounds sz (pos_or_karel w pos)"
    and "outward_edge sz (pos_or_karel w pos) (dir_or_karel w dir)"
  shows "is_blocked w pos dir = Inr True \<and> set_is_blocked w wall pos dir = Inl IndexError"
  using assms
  by (cases "dir_or_karel w dir")
     (simp_all add: is_blocked_def set_is_blocked_def list_index_size outward_edge_def)

theorem outward_edge_blocked_not_settable_witness:
  "World_size world_2x2 = Inr \<lparr>avenue = 2, street = 2\<rparr> \<and>
   in_bounds \<lparr>avenue = 2, street = 2\<rparr> (pos_or_karel world_2x2 (Some \<lparr>avenue = 1, street = 1\<rparr>)) \<and>
   outward_edge \<lparr>avenue = 2, street = 2\<rparr> (pos_or_karel world_2x2 (Some \<lparr>avenue = 1, street = 1\<rparr>))
     (dir_or_karel world_2x2 (Some north)) \<and>
   is_blocked world_2x2 (Some \<lparr>avenue = 1, street = 1\<rparr>) (Some north) = Inr True \<and>
   set_is_blocked world_2x2 False (Some \<lparr>avenue = 1, street = 1\<rparr>) (Some north) = Inl IndexError"
proof -
  have a: "World_size world_2x2 = Inr \<lparr>avenue = 2, street = 2\<rparr>"
    by (simp add: world_2x2_def World_size_nonempty)
  have b: "in_bounds \<lparr>avenue = 2, street = 2\<rparr> (pos_or_karel world_2x2 (Some \<lparr>avenue = 1, street = 1\<rparr>))"
    by (simp add: in_bounds_def pos_or_karel_def)
  have c: "outward_edge \<lparr>avenue = 2, street = 2\<rparr> (pos_or_karel world_2x2 (Some \<lparr>avenue = 1, street = 1\<rparr>))
     (dir_or_karel world_2x2 (Some north))"
    by (simp add: outward_edge_def pos_or_karel_def dir_or_karel_def)
  from outward_edge_blocked_not_settable [OF a b c, of False] a b c show ?thesis by simp
qed

lemma World_size_inv_eq:
  "World_inv w \<Longrightarrow> World_size w = Inr sz \<Longrightarrow> avenue sz = int (cols w) \<and> street sz = int (rows w)"
  by (auto simp add: World_size_inv)

lemma inv_shapes:
  assumes "World_inv w"
  shows "length (ball_counts w) = rows w"
    and "k < rows w \<Longrightarrow> length (ball_counts w ! k) = cols w"
    and "length (horizontal_walls w) = rows w - 1"
    and "k < rows w - 1 \<Longrightarrow> length (horizontal_walls w ! k) = cols w"
    and "length (vertical_walls w) = rows w"
    and "k < rows w \<Longrightarrow> length (vertical_walls w ! k) = cols w - 1"
    and "length (colors w) = rows w"
    and "k < rows w \<Longrightarrow> length (colors w ! k) = cols w"
    and "1 \<le> rows w" and "1 \<le> cols w"
  using assms by (simp_all add: World_inv_def rows_def list_all_length)

lemma hw_read:
  assumes "World_inv w" and "0 \<le> i" and "i < int (rows w) - 1" and "0 \<le> j" and "j < int (cols w)"
  shows "getitem2 (horizontal_walls w) i j = Inr (horizontal_walls w ! nat i ! nat j)"
proof -
  from assms have k: "nat i < rows w - 1" by linarith
  with inv_shapes(3,4) [OF assms(1)] assms show ?thesis
    by (intro getitem2_in_range) simp_all
qed

lemma vw_read:
  assumes "World_inv w" and "0 \<le> i" and "i < int (rows w)" and "0 \<le> j" and "j < int (cols w) - 1"
  shows "getitem2 (vertical_walls w) i j = Inr (vertical_walls w ! nat i ! nat j)"
proof -
  from assms have k: "nat i < rows w" by linarith
  from assms have "nat j < cols w - 1" by linarith
  with k inv_shapes(5,6) [OF assms(1)] assms show ?thesis
    by (intro getitem2_in_range) simp_all
qed

lemma bc_read:
  assumes "World_inv w" and "0 \<le> i" and "i < int (rows w)" and "0 \<le> j" and "j < int (cols w)"
  shows "getitem2 (ball_counts w) i j = Inr (ball_counts w ! nat i ! nat j)"
proof -
  from assms have k: "nat i < rows w" by linarith
  with inv_shapes(1,2) [OF assms(1)] assms show ?thesis
    by (intro getitem2_in_range) simp_all
qed

lemma colors_read:
  assumes "World_inv w" and "0 \<le> i" and "i < int (rows w)" and "0 \<le> j" and "j < int (cols w)"
  shows "getitem2 (colors w) i j = Inr (colors w ! nat i ! nat j)"
proof -
  from assms have k: "nat i < rows w" by linarith
  with inv_shapes(7,8) [OF assms(1)] assms show ?thesis
    by (intro getitem2_in_range) simp_all
qed

lemma is_blocked_eval:
  assumes "World_size w = Inr sz" and "p = pos_or_karel w pos" and "d = dir_or_karel w dir"
    and "pos_ok p" and "in_bounds sz p"
  shows "is_blocked w pos dir =
     (case d of
        north \<Rightarrow>
          if street p < street sz - 1
          then getitem2 (horizontal_walls w) (street sz - street p - 2) (avenue p)
          else Inr True
      | south \<Rightarrow>
          if 0 < street p
          then getitem2 (horizontal_walls w) (street sz - street p - 1) (avenue p)
          else Inr True
      | east \<Rightarrow>
          if avenue p < avenue sz - 1
          then getitem2 (vertical_walls w) (street sz - street p - 1) (avenue p)
          else Inr True
      | west \<Rightarrow>
          if 0 < avenue p
          then getitem2 (vertical_walls w) (street sz - street p - 1) (avenue p - 1)
          else Inr True)"
proof (cases d)
  case north
  with assms show ?thesis
    by (auto simp add: is_blocked_def list_index_size Let_def in_bounds_def pos_ok_def)
next
  case south
  with assms show ?thesis
    by (auto simp add: is_blocked_def list_index_size Let_def in_bounds_def pos_ok_def)
next
  case east
  with assms show ?thesis
    by (auto simp add: is_blocked_def list_index_size Let_def in_bounds_def pos_ok_def)
next
  case west
  with assms show ?thesis
    by (auto simp add: is_blocked_def list_index_size Let_def in_bounds_def pos_ok_def)
qed

lemma is_blocked_inv:
  assumes inv: "World_inv w" and sz: "World_size w = Inr sz"
    and p: "p = pos_or_karel w pos" and d: "d = dir_or_karel w dir"
    and ok: "pos_ok p" and inb: "in_bounds sz p"
  shows "is_blocked w pos dir = Inr (outward_edge sz p d \<or> stored_wall w p d)"
proof -
  from World_size_inv_eq [OF inv sz]
  have a: "avenue sz = int (cols w)" and s: "street sz = int (rows w)" by simp_all
  from ok inb a s have b: "0 \<le> avenue p" "avenue p < int (cols w)" "0 \<le> street p" "street p < int (rows w)"
    by (simp_all add: pos_ok_def in_bounds_def)
  note e = is_blocked_eval [OF sz p d ok inb, unfolded a s]
  show ?thesis
  proof (cases d)
    case north
    show ?thesis
    proof (cases "street p < int (rows w) - 1")
      case True
      with b have "getitem2 (horizontal_walls w) (int (rows w) - street p - 2) (avenue p)
                   = Inr (horizontal_walls w ! nat (int (rows w) - street p - 2) ! nat (avenue p))"
        by (intro hw_read [OF inv]) simp_all
      with True north e s show ?thesis
        by (simp add: outward_edge_def stored_wall_def)
    next
      case False
      with b north e s show ?thesis
        by (simp add: outward_edge_def stored_wall_def)
    qed
  next
    case south
    show ?thesis
    proof (cases "0 < street p")
      case True
      with b have "getitem2 (horizontal_walls w) (int (rows w) - street p - 1) (avenue p)
                   = Inr (horizontal_walls w ! nat (int (rows w) - street p - 1) ! nat (avenue p))"
        by (intro hw_read [OF inv]) simp_all
      with True south e b show ?thesis
        by (simp add: outward_edge_def stored_wall_def)
    next
      case False
      with b south e show ?thesis
        by (simp add: outward_edge_def stored_wall_def)
    qed
  next
    case east
    show ?thesis
    proof (cases "avenue p < int (cols w) - 1")
      case True
      with b have "getitem2 (vertical_walls w) (int (rows w) - street p - 1) (avenue p)
                   = Inr (vertical_walls w ! nat (int (rows w) - street p - 1) ! nat (avenue p))"
        by (intro vw_read [OF inv]) simp_all
      with True east e b a show ?thesis
        by (simp add: outward_edge_def stored_wall_def)
    next
      case False
      with b east e a show ?thesis
        by (simp add: outward_edge_def stored_wall_def)
    qed
  next
    case west
    show ?thesis
    proof (cases "0 < avenue p")
      case True
      with b have "getitem2 (vertical_walls w) (int (rows w) - street p - 1) (avenue p - 1)
                   = Inr (vertical_walls w ! nat (int (rows w) - street p - 1) ! nat (avenue p - 1))"
        by (intro vw_read [OF inv]) simp_all
      with True west e b show ?thesis
        by (simp add: outward_edge_def stored_wall_def)
    next
      case False
      with b west e show ?thesis
        by (simp add: outward_edge_def stored_wall_def)
    qed
  qed
qed


lemma cell_index:
  assumes inv: "World_inv w" and sz: "World_size w = Inr sz" and ok: "pos_ok p" and inb: "in_bounds sz p"
  shows "0 \<le> street sz - street p - 1" and "street sz - street p - 1 < int (rows w)"
    and "0 \<le> avenue p" and "avenue p < int (cols w)"
    and "street sz = int (rows w)" and "avenue sz = int (cols w)"
  using World_size_inv_eq [OF inv sz] ok inb by (simp_all add: pos_ok_def in_bounds_def)

lemma ball_count_inv:
  assumes inv: "World_inv w" and sz: "World_size w = Inr sz"
    and p: "p = pos_or_karel w pos" and ok: "pos_ok p" and inb: "in_bounds sz p"
  shows "ball_count w pos = Inr (ball_counts w ! nat (street sz - street p - 1) ! nat (avenue p))"
  using sz p inb cell_index(1-4) [OF inv sz ok inb]
  by (simp add: ball_count_def list_index_size bc_read [OF inv] Let_def)

lemma color_at_inv:
  assumes inv: "World_inv w" and sz: "World_size w = Inr sz"
    and p: "p = pos_or_karel w pos" and ok: "pos_ok p" and inb: "in_bounds sz p"
  shows "color_at w pos = Inr (colors w ! nat (street sz - street p - 1) ! nat (avenue p))"
  using sz p inb cell_index(1-4) [OF inv sz ok inb]
  by (simp add: color_at_def list_index_size colors_read [OF inv] Let_def)

lemma karel_in_bounds:
  assumes inv: "World_inv w" and sz: "World_size w = Inr sz"
  shows "pos_ok (position (karel w))" and "in_bounds sz (position (karel w))"
  using inv World_size_inv_eq [OF inv sz] by (simp_all add: World_inv_def in_bounds_def)

lemma size_pos_ok: "World_size w = Inr sz \<Longrightarrow> pos_ok sz"
  by (auto simp add: World_size_def bindE_def AvenueAndStreet_new_def pos_ok_def
      split: sum.splits if_splits)

section \<open>Moving the robot\<close>

text \<open>
  C5. For every World that satisfies the invariants (so the robot is at an in-bounds
  position \<open>p\<close>, facing \<open>d\<close>), \<open>front_is_blocked\<close> returns a boolean; when it is true
  \<open>move\<close> raises \<open>ValueError\<close> before assigning anything, and when it is false \<open>move\<close>
  succeeds, the robot's position becomes \<open>p.moved(d)\<close> and nothing else changes.
\<close>

theorem move_blocked_or_moved:
  assumes inv: "World_inv w"
  shows "\<exists>b. front_is_blocked w = Inr b \<and>
     (if b then move w = Inl ValueError
      else \<exists>q. moved (position (karel w)) (direction (karel w)) = Inr q \<and>
               move w = Inr (w\<lparr>karel := \<lparr>position = q, direction = direction (karel w)\<rparr>\<rparr>))"
proof -
  define p where "p = position (karel w)"
  define d where "d = direction (karel w)"
  obtain sz where sz: "World_size w = Inr sz" using World_size_inv [OF inv] by blast
  have ok: "pos_ok p" and inb: "in_bounds sz p"
    using karel_in_bounds [OF inv sz] by (simp_all add: p_def)
  have fb: "front_is_blocked w = Inr (outward_edge sz p d \<or> stored_wall w p d)"
    unfolding front_is_blocked_def
    by (rule is_blocked_inv [OF inv sz _ _ ok inb])
       (simp_all add: p_def d_def pos_or_karel_def dir_or_karel_def)
  show ?thesis
  proof (cases "outward_edge sz p d \<or> stored_wall w p d")
    case True
    with fb show ?thesis by (intro exI [of _ True]) (simp add: move_def)
  next
    case False
    then have "\<not> outward_edge sz p d" by simp
    with outward_edge_iff_neighbour_outside [OF ok size_pos_ok [OF sz] inb, of d]
    obtain q where q: "moved p d = Inr q" and qin: "in_bounds sz q"
      by (auto split: sum.splits)
    from q qin sz fb False show ?thesis
      by (intro exI [of _ False])
         (simp add: move_def Karel_moved_def Karel_moved_to_def karel_setter_def
          p_def [symmetric] d_def [symmetric])
  qed
qed


theorem move_blocked_or_moved_witness:
  "World_inv world_2x1 \<and> front_is_blocked world_2x1 = Inr False \<and>
   move world_2x1 =
     Inr (world_2x1\<lparr>karel := \<lparr>position = \<lparr>avenue = 1, street = 0\<rparr>, direction = east\<rparr>\<rparr>)"
proof -
  have inv: "World_inv world_2x1"
    by (simp add: World_inv_def world_2x1_def Karel_default_def rows_def cols_def pos_ok_def)
  have sz: "World_size world_2x1 = Inr \<lparr>avenue = 2, street = 1\<rparr>"
    by (simp add: world_2x1_def World_size_nonempty)
  have fb: "front_is_blocked world_2x1 = Inr False"
    by (simp add: front_is_blocked_def is_blocked_def world_2x1_def Karel_default_def
        World_size_def list_index_def in_bounds_def pos_or_karel_def dir_or_karel_def
        getitem2_def getitem_def norm_index_def AvenueAndStreet_new_def Let_def)
  have mv: "moved (position (karel world_2x1)) (direction (karel world_2x1))
            = Inr \<lparr>avenue = 1, street = 0\<rparr>"
    by (simp add: world_2x1_def Karel_default_def with_avenue_def AvenueAndStreet_new_def)
  have dir: "direction (karel world_2x1) = east"
    by (simp add: world_2x1_def Karel_default_def)
  from move_blocked_or_moved [OF inv] fb mv dir inv show ?thesis by auto
qed

section \<open>Ball counts\<close>

lemma cols_update:
  assumes "k < length (ball_counts w)" and "length r = length (ball_counts w ! k)"
  shows "cols (w\<lparr>ball_counts := (ball_counts w)[k := r]\<rparr>) = cols w"
  using assms by (cases "ball_counts w"; cases k) (simp_all add: cols_def)

lemma rows_update: "rows (w\<lparr>ball_counts := (ball_counts w)[k := r]\<rparr>) = rows w"
  by (simp add: rows_def)

lemma list_all_grid_update:
  assumes "list_all (list_all P) xs" and "P v" and "k < length xs"
  shows "list_all (list_all P) (xs[k := (xs ! k)[l := v]])"
proof -
  have "P x" if "row \<in> set (xs[k := (xs ! k)[l := v]])" and "x \<in> set row" for row x
  proof -
    from that(1) have "row = (xs ! k)[l := v] \<or> row \<in> set xs"
      using set_update_subset_insert [of xs k "(xs ! k)[l := v]"] by auto
    then show ?thesis
    proof
      assume "row = (xs ! k)[l := v]"
      with that(2) have "x = v \<or> x \<in> set (xs ! k)"
        using set_update_subset_insert [of "xs ! k" l v] by auto
      moreover have "xs ! k \<in> set xs" using assms(3) by simp
      ultimately show ?thesis using assms(1,2) by (auto simp add: list_all_iff)
    next
      assume "row \<in> set xs"
      with that(2) assms(1) show ?thesis by (auto simp add: list_all_iff)
    qed
  qed
  then show ?thesis by (auto simp add: list_all_iff)
qed

lemma World_inv_ball_update:
  assumes inv: "World_inv w" and k: "k < rows w" and n: "0 \<le> n"
  shows "World_inv (w\<lparr>ball_counts := (ball_counts w)[k := (ball_counts w ! k)[l := n]]\<rparr>)"
proof -
  let ?w = "w\<lparr>ball_counts := (ball_counts w)[k := (ball_counts w ! k)[l := n]]\<rparr>"
  from k have c: "cols ?w = cols w" by (intro cols_update) (simp_all add: rows_def)
  have r: "rows ?w = rows w" by (rule rows_update)
  have nonneg: "list_all (list_all (\<lambda>n. 0 \<le> n)) (ball_counts ?w)"
    using inv n k by (simp add: World_inv_def list_all_grid_update rows_def)
  have shape: "list_all (\<lambda>row. length row = cols w) (ball_counts ?w)"
    using inv k by (auto simp add: World_inv_def list_all_length nth_list_update rows_def)
  from inv c r nonneg shape show ?thesis
    by (simp add: World_inv_def)
qed


lemma World_size_ball_update:
  assumes "World_size w = Inr sz" and "k < length (ball_counts w)"
  shows "World_size (w\<lparr>ball_counts := (ball_counts w)[k := (ball_counts w ! k)[l := n]]\<rparr>) = Inr sz"
  using assms
  by (cases "ball_counts w"; cases k)
     (simp_all add: World_size_def getitem_def norm_index_def)

lemma set_ball_count_inv:
  assumes inv: "World_inv w" and sz: "World_size w = Inr sz"
    and p: "p = pos_or_karel w pos" and ok: "pos_ok p" and inb: "in_bounds sz p"
    and n: "0 \<le> n"
  shows "set_ball_count w n pos =
         Inr (w\<lparr>ball_counts := (ball_counts w)[nat (street sz - street p - 1) :=
                  (ball_counts w ! nat (street sz - street p - 1))[nat (avenue p) := n]]\<rparr>)"
proof -
  note ci = cell_index [OF inv sz ok inb]
  from ci have k: "nat (street sz - street p - 1) < rows w" by linarith
  have "setitem2 (ball_counts w) (street sz - street p - 1) (avenue p) n =
        Inr ((ball_counts w)[nat (street sz - street p - 1) :=
               (ball_counts w ! nat (street sz - street p - 1))[nat (avenue p) := n]])"
    using ci k inv_shapes(1,2) [OF inv] by (intro setitem2_in_range) simp_all
  with sz p inb n show ?thesis
    by (simp add: set_ball_count_def list_index_size Let_def)
qed

lemma pos_eq_iff: "(p = q) = (avenue p = avenue q \<and> street p = street q)"
  for p q :: AvenueAndStreet
  by (cases p; cases q) simp

lemma ball_count_out_of_bounds:
  "World_size w = Inr sz \<Longrightarrow> \<not> in_bounds sz q \<Longrightarrow> ball_count w (Some q) = Inl IndexError"
  by (simp add: ball_count_def pos_or_karel_def)

lemma ball_update_frame:
  assumes inv: "World_inv w" and sz: "World_size w = Inr sz"
    and ok: "pos_ok p" and inb: "in_bounds sz p" and n: "0 \<le> n"
    and w': "w' = w\<lparr>ball_counts := (ball_counts w)[nat (street sz - street p - 1) :=
                  (ball_counts w ! nat (street sz - street p - 1))[nat (avenue p) := n]]\<rparr>"
  shows "World_inv w'" and "World_size w' = Inr sz"
    and "ball_count w' (Some p) = Inr n"
    and "pos_ok q \<Longrightarrow> q \<noteq> p \<Longrightarrow> ball_count w' (Some q) = ball_count w (Some q)"
    and "w'\<lparr>ball_counts := ball_counts w\<rparr> = w"
proof -
  note ci = cell_index [OF inv sz ok inb]
  from ci have k: "nat (street sz - street p - 1) < rows w" by linarith
  from ci have l: "nat (avenue p) < cols w" by linarith
  show inv': "World_inv w'"
    unfolding w' using inv k n by (rule World_inv_ball_update)
  show sz': "World_size w' = Inr sz"
    unfolding w' using sz k by (intro World_size_ball_update) (simp_all add: rows_def)
  have pk: "Some p = Some p" by simp
  have "ball_count w' (Some p) =
        Inr (ball_counts w' ! nat (street sz - street p - 1) ! nat (avenue p))"
    by (rule ball_count_inv [OF inv' sz' _ ok inb]) (simp add: pos_or_karel_def)
  also have "ball_counts w' ! nat (street sz - street p - 1) ! nat (avenue p) = n"
    using k l inv_shapes(1,2) [OF inv] by (simp add: w')
  finally show "ball_count w' (Some p) = Inr n" .
  show "w'\<lparr>ball_counts := ball_counts w\<rparr> = w" by (simp add: w')
  show "ball_count w' (Some q) = ball_count w (Some q)" if okq: "pos_ok q" and ne: "q \<noteq> p"
  proof (cases "in_bounds sz q")
    case False
    with sz sz' show ?thesis by (simp add: ball_count_out_of_bounds)
  next
    case True
    note cq = cell_index [OF inv sz okq True]
    from cq have kq: "nat (street sz - street q - 1) < rows w" by linarith
    from cq have lq: "nat (avenue q) < cols w" by linarith
    have a: "ball_count w' (Some q) =
        Inr (ball_counts w' ! nat (street sz - street q - 1) ! nat (avenue q))"
      by (rule ball_count_inv [OF inv' sz' _ okq True]) (simp add: pos_or_karel_def)
    have b: "ball_count w (Some q) =
        Inr (ball_counts w ! nat (street sz - street q - 1) ! nat (avenue q))"
      by (rule ball_count_inv [OF inv sz _ okq True]) (simp add: pos_or_karel_def)
    from ne have "street q \<noteq> street p \<or> avenue q \<noteq> avenue p" by (auto simp add: pos_eq_iff)
    then have "nat (street sz - street q - 1) \<noteq> nat (street sz - street p - 1)
               \<or> nat (avenue q) \<noteq> nat (avenue p)"
      using ci cq by auto
    then have "ball_counts w' ! nat (street sz - street q - 1) ! nat (avenue q)
               = ball_counts w ! nat (street sz - street q - 1) ! nat (avenue q)"
      using k kq inv_shapes(1) [OF inv] by (auto simp add: w' nth_list_update)
    with a b show ?thesis by simp
  qed
qed

text \<open>
  C10. For every World that satisfies the invariants and every in-bounds position \<open>p\<close>
  (given, or the robot's), \<open>put_ball\<close> sets the ball count at \<open>p\<close> to its previous value
  plus 1 and changes no other cell's count, no wall, no colour, not the robot and not
  the size; \<open>take_ball\<close> sets it to the previous value minus 1 with the same frame, and
  raises \<open>ValueError\<close>, before assigning anything, when the count at \<open>p\<close> is 0.
\<close>

theorem put_ball_take_ball_frame:
  assumes inv: "World_inv w" and sz: "World_size w = Inr sz"
    and p: "p = pos_or_karel w pos" and ok: "pos_ok p" and inb: "in_bounds sz p"
  shows "\<exists>n. ball_count w pos = Inr n \<and> 0 \<le> n \<and>
     (\<exists>w'. put_ball w pos = Inr w' \<and> ball_count w' (Some p) = Inr (n + 1) \<and>
           (\<forall>q. pos_ok q \<and> q \<noteq> p \<longrightarrow> ball_count w' (Some q) = ball_count w (Some q)) \<and>
           w'\<lparr>ball_counts := ball_counts w\<rparr> = w \<and> World_size w' = Inr sz) \<and>
     (n = 0 \<longrightarrow> take_ball w pos = Inl ValueError) \<and>
     (n \<noteq> 0 \<longrightarrow>
       (\<exists>w'. take_ball w pos = Inr w' \<and> ball_count w' (Some p) = Inr (n - 1) \<and>
           (\<forall>q. pos_ok q \<and> q \<noteq> p \<longrightarrow> ball_count w' (Some q) = ball_count w (Some q)) \<and>
           w'\<lparr>ball_counts := ball_counts w\<rparr> = w \<and> World_size w' = Inr sz))"
proof -
  define n where "n = ball_counts w ! nat (street sz - street p - 1) ! nat (avenue p)"
  have pp: "p = pos_or_karel w (Some p)" by (simp add: pos_or_karel_def)
  have bc: "ball_count w pos = Inr n"
    unfolding n_def by (rule ball_count_inv [OF inv sz p ok inb])
  have bcp: "ball_count w (Some p) = Inr n"
    unfolding n_def by (rule ball_count_inv [OF inv sz pp ok inb])
  note ci = cell_index [OF inv sz ok inb]
  from ci have k: "nat (street sz - street p - 1) < rows w" by linarith
  from ci have l: "nat (avenue p) < cols w" by linarith
  have n0: "0 \<le> n"
    using inv k l inv_shapes(1,2) [OF inv]
    by (simp add: World_inv_def list_all_length n_def)
  have step: "\<exists>w'. set_ball_count w m (Some p) = Inr w' \<and> ball_count w' (Some p) = Inr m \<and>
           (\<forall>q. pos_ok q \<and> q \<noteq> p \<longrightarrow> ball_count w' (Some q) = ball_count w (Some q)) \<and>
           w'\<lparr>ball_counts := ball_counts w\<rparr> = w \<and> World_size w' = Inr sz"
    if m: "0 \<le> m" for m
  proof -
    define w' where "w' = w\<lparr>ball_counts := (ball_counts w)[nat (street sz - street p - 1) :=
                  (ball_counts w ! nat (street sz - street p - 1))[nat (avenue p) := m]]\<rparr>"
    have "set_ball_count w m (Some p) = Inr w'"
      unfolding w'_def by (rule set_ball_count_inv [OF inv sz pp ok inb m])
    with ball_update_frame(2-5) [OF inv sz ok inb m w'_def] show ?thesis by blast
  qed
  have put: "put_ball w pos = set_ball_count w (n + 1) (Some p)"
    using bcp p by (simp add: put_ball_def Let_def)
  have take: "take_ball w pos = set_ball_count w (n - 1) (Some p)"
    using bcp p by (simp add: take_ball_def Let_def)
  have neg: "set_ball_count w (- 1) (Some p) = Inl ValueError"
    using sz inb by (simp add: set_ball_count_def pos_or_karel_def)
  from n0 have "0 \<le> n + 1" by simp
  from step [OF this] put have A: "\<exists>w'. put_ball w pos = Inr w' \<and> ball_count w' (Some p) = Inr (n + 1) \<and>
           (\<forall>q. pos_ok q \<and> q \<noteq> p \<longrightarrow> ball_count w' (Some q) = ball_count w (Some q)) \<and>
           w'\<lparr>ball_counts := ball_counts w\<rparr> = w \<and> World_size w' = Inr sz" by simp
  have B: "n = 0 \<longrightarrow> take_ball w pos = Inl ValueError" using take neg by simp
  have C: "n \<noteq> 0 \<longrightarrow>
       (\<exists>w'. take_ball w pos = Inr w' \<and> ball_count w' (Some p) = Inr (n - 1) \<and>
           (\<forall>q. pos_ok q \<and> q \<noteq> p \<longrightarrow> ball_count w' (Some q) = ball_count w (Some q)) \<and>
           w'\<lparr>ball_counts := ball_counts w\<rparr> = w \<and> World_size w' = Inr sz)"
  proof
    assume "n \<noteq> 0"
    with n0 have "0 \<le> n - 1" by simp
    from step [OF this] take show "\<exists>w'. take_ball w pos = Inr w' \<and> ball_count w' (Some p) = Inr (n - 1) \<and>
           (\<forall>q. pos_ok q \<and> q \<noteq> p \<longrightarrow> ball_count w' (Some q) = ball_count w (Some q)) \<and>
           w'\<lparr>ball_counts := ball_counts w\<rparr> = w \<and> World_size w' = Inr sz" by simp
  qed
  from bc n0 A B C show ?thesis by blast
qed


theorem put_ball_take_ball_frame_witness:
  "World_inv world_1x1_one_ball \<and>
   World_size world_1x1_one_ball = Inr \<lparr>avenue = 1, street = 1\<rparr> \<and>
   pos_ok (pos_or_karel world_1x1_one_ball None) \<and>
   in_bounds \<lparr>avenue = 1, street = 1\<rparr> (pos_or_karel world_1x1_one_ball None) \<and>
   ball_count world_1x1_one_ball None = Inr 1 \<and>
   (\<exists>w'. take_ball world_1x1_one_ball None = Inr w' \<and>
         ball_count w' (Some (pos_or_karel world_1x1_one_ball None)) = Inr 0) \<and>
   (\<exists>w'. put_ball world_1x1_one_ball None = Inr w' \<and>
         ball_count w' (Some (pos_or_karel world_1x1_one_ball None)) = Inr 2)"
proof -
  have inv: "World_inv world_1x1_one_ball"
    by (simp add: World_inv_def world_1x1_one_ball_def Karel_default_def rows_def cols_def
        pos_ok_def)
  have sz: "World_size world_1x1_one_ball = Inr \<lparr>avenue = 1, street = 1\<rparr>"
    by (simp add: world_1x1_one_ball_def World_size_nonempty)
  have ok: "pos_ok (pos_or_karel world_1x1_one_ball None)"
    by (simp add: pos_or_karel_def world_1x1_one_ball_def Karel_default_def pos_ok_def)
  have inb: "in_bounds \<lparr>avenue = 1, street = 1\<rparr> (pos_or_karel world_1x1_one_ball None)"
    by (simp add: pos_or_karel_def world_1x1_one_ball_def Karel_default_def in_bounds_def)
  have bc: "ball_count world_1x1_one_ball None = Inr 1"
    by (simp add: ball_count_def world_1x1_one_ball_def Karel_default_def World_size_def
        list_index_def in_bounds_def pos_or_karel_def getitem2_def getitem_def norm_index_def
        AvenueAndStreet_new_def Let_def)
  from put_ball_take_ball_frame [OF inv sz refl ok inb] bc inv sz ok inb
  show ?thesis by auto
qed

section \<open>Queries\<close>

lemma bool_result_not: "\<exists>b. m = Inr b \<Longrightarrow> \<exists>b. bindE m (\<lambda>b. Inr (\<not> b)) = Inr b"
  by auto

text \<open>
  C9, as the claim states it: \<open>color_is\<close> would return a boolean for every argument. For
  a string that is no colour, \<open>RGB.from_str\<close> raises \<open>ValueError\<close> and \<open>color_is\<close> with it.
\<close>

theorem color_is_counterexample:
  "World_inv world_2x2 \<and> color_is world_2x2 (color_text ''bogus'' no_match) = Inl ValueError"
  by (simp add: World_inv_def rows_def cols_def pos_ok_def world_2x2_def Karel_default_def
      color_is_def color_at_def World_size_def list_index_def in_bounds_def pos_or_karel_def
      getitem2_def getitem_def norm_index_def AvenueAndStreet_new_def Let_def
      color_def lower_char_def hex_form_def)

text \<open>
  C9, amended. For every World that satisfies the invariants, \<open>front_is_clear\<close>,
  \<open>left_is_clear\<close>, \<open>right_is_clear\<close>, \<open>front_is_blocked\<close>, \<open>left_is_blocked\<close>,
  \<open>right_is_blocked\<close>, \<open>balls_present\<close> and \<open>no_balls_present\<close> return a boolean without
  raising; \<open>color_is(c)\<close> returns whether the robot's cell has the colour that
  \<open>RGB.from_str(c)\<close> returns, and raises what \<open>RGB.from_str(c)\<close> raises when \<open>c\<close> is no
  colour. The \<open>facing\<close> and \<open>not_facing\<close> queries only compare the robot's direction
  and are functions to \<open>bool\<close>. None of the queries assigns to a slot of the World: each
  is a function of the state alone.
\<close>

theorem queries_total:
  assumes inv: "World_inv w"
  shows "(\<exists>b. front_is_clear w = Inr b) \<and> (\<exists>b. left_is_clear w = Inr b) \<and>
         (\<exists>b. right_is_clear w = Inr b) \<and> (\<exists>b. front_is_blocked w = Inr b) \<and>
         (\<exists>b. left_is_blocked w = Inr b) \<and> (\<exists>b. right_is_blocked w = Inr b) \<and>
         (\<exists>b. balls_present w None = Inr b) \<and> (\<exists>b. no_balls_present w None = Inr b) \<and>
         (\<exists>here. color_at w None = Inr here \<and>
            color_is w c = (case from_str c of Inl e \<Rightarrow> Inl e | Inr wanted \<Rightarrow> Inr (here = wanted)))"
proof -
  obtain sz where sz: "World_size w = Inr sz" using World_size_inv [OF inv] by blast
  note kb = karel_in_bounds [OF inv sz]
  have blocked: "\<exists>b. is_blocked w None dir = Inr b" for dir
    using is_blocked_inv [OF inv sz refl refl, of None dir] kb
    by (simp add: pos_or_karel_def)
  then have clear: "\<exists>b. is_clear w None dir = Inr b" for dir
    unfolding is_clear_def by (rule bool_result_not)
  have bc: "\<exists>n. ball_count w (Some (position (karel w))) = Inr n"
    using ball_count_inv [OF inv sz refl, of "Some (position (karel w))"] kb
    by (simp add: pos_or_karel_def)
  then have bp: "\<exists>b. balls_present w None = Inr b"
    by (auto simp add: balls_present_def pos_or_karel_def Let_def)
  then have nbp: "\<exists>b. no_balls_present w None = Inr b"
    unfolding no_balls_present_def by (rule bool_result_not)
  have "\<exists>here. color_at w None = Inr here"
    using color_at_inv [OF inv sz refl, of None] kb by (simp add: pos_or_karel_def)
  then have ci: "\<exists>here. color_at w None = Inr here \<and>
            color_is w c = (case from_str c of Inl e \<Rightarrow> Inl e | Inr wanted \<Rightarrow> Inr (here = wanted))"
    by (auto simp add: color_is_def split: sum.splits)
  from blocked clear bp nbp ci show ?thesis
    by (simp add: front_is_clear_def left_is_clear_def right_is_clear_def front_is_blocked_def
        left_is_blocked_def right_is_blocked_def)
qed

theorem queries_total_witness:
  "World_inv world_2x2 \<and> (\<exists>b. right_is_blocked world_2x2 = Inr b) \<and>
   color_is world_2x2 (color_text ''white'' no_match) = Inr True \<and>
   color_is world_2x2 (color_value (RGB 255 0 0)) = Inr False"
proof -
  have inv: "World_inv world_2x2"
    by (simp add: World_inv_def rows_def cols_def pos_ok_def world_2x2_def Karel_default_def)
  have here: "color_at world_2x2 None = Inr (RGB 255 255 255)"
    by (simp add: world_2x2_def Karel_default_def
      color_at_def World_size_def list_index_def in_bounds_def pos_or_karel_def
      getitem2_def getitem_def norm_index_def AvenueAndStreet_new_def Let_def)
  have white: "from_str (color_text ''white'' no_match) = Inr (RGB 255 255 255)"
    by (simp add: color_def lower_char_def)
  from queries_total [OF inv, of "color_text ''white'' no_match"]
       queries_total [OF inv, of "color_value (RGB 255 0 0)"] here white inv
  show ?thesis by auto
qed

section \<open>Resizing\<close>

lemma World_size_hd:
  "ball_counts w \<noteq> [] \<Longrightarrow>
   World_size w = Inr \<lparr>avenue = int (length (hd (ball_counts w))),
                       street = int (length (ball_counts w))\<rparr>"
  by (cases "ball_counts w") (simp_all add: World_size_nonempty)

lemma cols_hd: "ball_counts w \<noteq> [] \<Longrightarrow> cols w = length (hd (ball_counts w))"
  by (cases "ball_counts w") (simp_all add: cols_def)

lemma shrink_street_eval:
  assumes "ball_counts w \<noteq> []"
  shows "shrink_street new w =
     Inr (if street new < int (rows w)
          then w\<lparr>ball_counts := drop (nat (int (rows w) - street new)) (ball_counts w),
                 horizontal_walls := drop (nat (int (rows w) - street new)) (horizontal_walls w),
                 vertical_walls := drop (nat (int (rows w) - street new)) (vertical_walls w),
                 colors := drop (nat (int (rows w) - street new)) (colors w)\<rparr>
          else w)"
  using assms by (simp add: shrink_street_def World_size_hd rows_def Let_def)

lemma grow_street_eval:
  assumes "ball_counts w \<noteq> []"
  shows "grow_street new w =
     Inr (if street new > int (rows w)
          then w\<lparr>ball_counts :=
                   replicate (nat (street new - int (rows w))) (replicate (cols w) 0)
                   @ ball_counts w,
                 horizontal_walls :=
                   replicate (nat (street new - int (rows w))) (replicate (cols w) False)
                   @ horizontal_walls w,
                 vertical_walls :=
                   replicate (nat (street new - int (rows w))) (replicate (cols w - 1) False)
                   @ vertical_walls w,
                 colors :=
                   replicate (nat (street new - int (rows w)))
                     (replicate (cols w) (RGB 255 255 255))
                   @ colors w\<rparr>
          else w)"
proof (cases "street new > int (rows w)")
  case False
  with assms show ?thesis by (simp add: grow_street_def World_size_hd rows_def)
next
  case True
  then have k: "0 < nat (street new - int (rows w))" by simp
  then obtain k' where k': "nat (street new - int (rows w)) = Suc k'"
    by (cases "nat (street new - int (rows w))") simp_all
  have nat_sub: "nat (int (cols w) - 1) = cols w - 1" by simp
  from assms True show ?thesis
    by (simp add: grow_street_def World_size_hd Let_def cols_hd [symmetric] k'
        rows_def [symmetric] nat_sub)
qed

lemma shrink_avenue_eval:
  assumes "ball_counts w \<noteq> []"
  shows "shrink_avenue new w =
     Inr (if avenue new < int (cols w)
          then w\<lparr>ball_counts := map (del_tail (nat (int (cols w) - avenue new))) (ball_counts w),
                 horizontal_walls :=
                   map (del_tail (nat (int (cols w) - avenue new))) (horizontal_walls w),
                 vertical_walls :=
                   map (del_tail (nat (int (cols w) - avenue new))) (vertical_walls w),
                 colors := map (del_tail (nat (int (cols w) - avenue new))) (colors w)\<rparr>
          else w)"
  using assms by (simp add: shrink_avenue_def World_size_hd cols_hd Let_def)

lemma grow_avenue_eval:
  assumes "ball_counts w \<noteq> []"
  shows "grow_avenue new w =
     Inr (if avenue new > int (cols w)
          then w\<lparr>ball_counts :=
                   map (\<lambda>i. i @ replicate (nat (avenue new - int (cols w))) 0) (ball_counts w),
                 horizontal_walls :=
                   map (\<lambda>i. i @ replicate (nat (avenue new - int (cols w))) False)
                     (horizontal_walls w),
                 vertical_walls :=
                   map (\<lambda>i. i @ replicate (nat (avenue new - int (cols w))) False)
                     (vertical_walls w),
                 colors :=
                   map (\<lambda>i. i @ replicate (nat (avenue new - int (cols w))) (RGB 255 255 255))
                     (colors w)\<rparr>
          else w)"
  using assms by (simp add: grow_avenue_def World_size_hd cols_hd Let_def)

lemma fit_east_del_tail: "da < 0 \<Longrightarrow> fit_east da fill = del_tail (nat (- da))"
  by (rule ext) (simp add: fit_east_def del_tail_def)

lemma fit_east_extend: "0 \<le> da \<Longrightarrow> fit_east da fill = (\<lambda>i. i @ replicate (nat da) fill)"
  by (rule ext) (simp add: fit_east_def)

lemma fit_east_0: "map (fit_east 0 fill) grid = grid"
  by (induction grid) (simp_all add: fit_east_def)

lemma size_setter_resized:
  assumes inv: "World_inv w" and a: "0 < avenue new" and s: "0 < street new"
    and inb: "in_bounds new (position (karel w))"
  shows "size_setter w new = Inr (resized w new)"
proof -
  note sh = inv_shapes [OF inv]
  from sh(9) have ne: "ball_counts w \<noteq> []" by (auto simp add: rows_def)
  define ds where "ds = street new - int (rows w)"
  define w2 where "w2 = w\<lparr>ball_counts := fit_north ds (replicate (cols w) 0) (ball_counts w),
        horizontal_walls := fit_north ds (replicate (cols w) False) (horizontal_walls w),
        vertical_walls := fit_north ds (replicate (cols w - 1) False) (vertical_walls w),
        colors := fit_north ds (replicate (cols w) (RGB 255 255 255)) (colors w)\<rparr>"
  have step12: "bindE (shrink_street new w) (grow_street new) = Inr w2"
  proof (cases "ds < 0")
    case True
    then have lt: "street new < int (rows w)" by (simp add: ds_def)
    let ?w1 = "w\<lparr>ball_counts := drop (nat (int (rows w) - street new)) (ball_counts w),
                 horizontal_walls := drop (nat (int (rows w) - street new)) (horizontal_walls w),
                 vertical_walls := drop (nat (int (rows w) - street new)) (vertical_walls w),
                 colors := drop (nat (int (rows w) - street new)) (colors w)\<rparr>"
    from lt s have ne1: "ball_counts ?w1 \<noteq> []" by (simp add: rows_def)
    from lt s have r1: "int (rows ?w1) = street new" by (simp add: rows_def)
    have "shrink_street new w = Inr ?w1" using lt by (simp add: shrink_street_eval [OF ne])
    moreover have "grow_street new ?w1 = Inr ?w1"
      using r1 by (simp add: grow_street_eval [OF ne1])
    moreover have "?w1 = w2" using True
      by (simp add: w2_def fit_north_def ds_def)
    ultimately show ?thesis by simp
  next
    case False
    then have ge: "\<not> street new < int (rows w)" by (simp add: ds_def)
    have "shrink_street new w = Inr w" using ge by (simp add: shrink_street_eval [OF ne])
    moreover have "grow_street new w = Inr w2"
      using False ge by (auto simp add: grow_street_eval [OF ne] w2_def fit_north_def ds_def)
    ultimately show ?thesis by simp
  qed
  have ne2: "ball_counts w2 \<noteq> []"
    using ne s sh(1) by (auto simp add: w2_def fit_north_def ds_def)
  have c2: "cols w2 = cols w"
  proof (cases "ds < 0")
    case True
    with s have "nat (- ds) < length (ball_counts w)" by (simp add: ds_def rows_def)
    then have "hd (drop (nat (- ds)) (ball_counts w)) = ball_counts w ! nat (- ds)"
      by (simp add: hd_drop_conv_nth)
    moreover have "length (ball_counts w ! nat (- ds)) = cols w"
      using \<open>nat (- ds) < length (ball_counts w)\<close> sh(1,2) by simp
    ultimately show ?thesis using True ne2 by (simp add: cols_hd w2_def fit_north_def)
  next
    case False
    show ?thesis
    proof (cases "ds = 0")
      case True
      then show ?thesis using ne by (simp add: cols_hd w2_def fit_north_def)
    next
      case nz: False
      with False obtain k where "nat ds = Suc k" by (cases "nat ds") simp_all
      with False show ?thesis using ne2 by (simp add: cols_hd w2_def fit_north_def)
    qed
  qed
  define da where "da = avenue new - int (cols w)"
  have w4: "resized w new =
     w2\<lparr>ball_counts := map (fit_east da 0) (ball_counts w2),
        horizontal_walls := map (fit_east da False) (horizontal_walls w2),
        vertical_walls := map (fit_east da False) (vertical_walls w2),
        colors := map (fit_east da (RGB 255 255 255)) (colors w2)\<rparr>"
    by (simp add: resized_def w2_def Let_def ds_def da_def)
  have step34: "bindE (shrink_avenue new w2) (grow_avenue new) = Inr (resized w new)"
  proof (cases "da < 0")
    case True
    then have lt: "avenue new < int (cols w2)" by (simp add: da_def c2)
    let ?k = "nat (int (cols w2) - avenue new)"
    let ?w3 = "w2\<lparr>ball_counts := map (del_tail ?k) (ball_counts w2),
                 horizontal_walls := map (del_tail ?k) (horizontal_walls w2),
                 vertical_walls := map (del_tail ?k) (vertical_walls w2),
                 colors := map (del_tail ?k) (colors w2)\<rparr>"
    from ne2 have ne3: "ball_counts ?w3 \<noteq> []" by simp
    have "cols ?w3 = cols w2 - ?k"
      using ne2 by (simp add: cols_hd hd_map del_tail_def)
    with lt a have c3: "int (cols ?w3) = avenue new" by simp
    have "shrink_avenue new w2 = Inr ?w3" using lt by (simp add: shrink_avenue_eval [OF ne2])
    moreover have "grow_avenue new ?w3 = Inr ?w3"
      using c3 by (simp add: grow_avenue_eval [OF ne3])
    moreover have "?w3 = resized w new"
      using True by (simp add: w4 fit_east_del_tail c2 da_def)
    ultimately show ?thesis by simp
  next
    case False
    then have ge: "\<not> avenue new < int (cols w2)" by (simp add: da_def c2)
    have "shrink_avenue new w2 = Inr w2" using ge by (simp add: shrink_avenue_eval [OF ne2])
    moreover have "grow_avenue new w2 = Inr (resized w new)"
    proof (cases "da = 0")
      case True
      then show ?thesis
        by (simp add: grow_avenue_eval [OF ne2] w4 fit_east_0 c2 da_def)
    next
      case nz: False
      with False have "avenue new > int (cols w2)" by (simp add: da_def c2)
      then show ?thesis using False
        by (simp add: grow_avenue_eval [OF ne2] w4 fit_east_extend c2 da_def)
    qed
    ultimately show ?thesis by simp
  qed
  from a s inb have "size_setter w new =
      bindE (bindE (shrink_street new w) (grow_street new))
        (\<lambda>s2. bindE (shrink_avenue new s2) (grow_avenue new))"
    by (cases "shrink_street new w") (simp_all add: size_setter_def)
  with step12 step34 show ?thesis by simp
qed

lemma size_setter_rejects:
  "street new = 0 \<or> avenue new = 0 \<or> \<not> in_bounds new (position (karel w)) \<Longrightarrow>
   size_setter w new = Inl ValueError"
  by (auto simp add: size_setter_def)




lemma fit_north_length:
  "0 \<le> int (length grid) + ds \<Longrightarrow> length (fit_north ds fr grid) = nat (int (length grid) + ds)"
  by (auto simp add: fit_north_def)

lemma fit_north_nth:
  "i < nat (int (length grid) + ds) \<Longrightarrow>
   fit_north ds fr grid ! i = (if int i < ds then fr else grid ! nat (int i - ds))"
  by (auto simp add: fit_north_def nth_append nat_diff_distrib' nat_add_distrib intro: arg_cong)

lemma fit_east_length: "length (fit_east da fill row) = nat (int (length row) + da)"
  by (auto simp add: fit_east_def)

lemma fit_east_nth:
  "j < nat (int (length row) + da) \<Longrightarrow>
   fit_east da fill row ! j = (if j < length row then row ! j else fill)"
  by (auto simp add: fit_east_def nth_append)

lemma fit_north_rows:
  assumes "list_all (\<lambda>row. length row = c) grid"
  shows "list_all (\<lambda>row. length row = c) (fit_north ds (replicate c x) grid)"
  using assms by (auto simp add: fit_north_def list_all_iff dest: in_set_dropD)

lemma grid_fit_rows:
  assumes "list_all (\<lambda>row. length row = c) grid"
  shows "list_all (\<lambda>row. length row = nat (int c + da))
           (map (fit_east da fill) (fit_north ds (replicate c x) grid))"
  using fit_north_rows [OF assms, of ds x]
  by (simp add: list_all_iff fit_east_length)

lemma grid_fit_nth:
  assumes shape: "list_all (\<lambda>row. length row = c) grid"
    and i: "i < nat (int (length grid) + ds)" and j: "j < nat (int c + da)"
  shows "map (fit_east da fill) (fit_north ds (replicate c fill) grid) ! i ! j =
         (if ds \<le> int i \<and> j < c then grid ! nat (int i - ds) ! j else fill)"
proof -
  from i have len: "i < length (fit_north ds (replicate c fill) grid)"
    by (simp add: fit_north_length)
  let ?row = "fit_north ds (replicate c fill) grid ! i"
  have rl: "length ?row = c"
    using fit_north_rows [OF shape, of ds fill] len by (simp add: list_all_length)
  have "map (fit_east da fill) (fit_north ds (replicate c fill) grid) ! i ! j
        = fit_east da fill ?row ! j"
    using len by simp
  also have "\<dots> = (if j < c then ?row ! j else fill)"
    using j rl by (simp add: fit_east_nth)
  also have "\<dots> = (if ds \<le> int i \<and> j < c then grid ! nat (int i - ds) ! j else fill)"
    using i by (auto simp add: fit_north_nth)
  finally show ?thesis .
qed


lemma cols_of_shape:
  "ball_counts w \<noteq> [] \<Longrightarrow> list_all (\<lambda>row. length row = n) (ball_counts w) \<Longrightarrow> cols w = n"
  by (cases "ball_counts w") (simp_all add: cols_def)

lemma resized_grids:
  "ball_counts (resized w new) =
     map (fit_east (avenue new - int (cols w)) 0)
       (fit_north (street new - int (rows w)) (replicate (cols w) 0) (ball_counts w))"
  "horizontal_walls (resized w new) =
     map (fit_east (avenue new - int (cols w)) False)
       (fit_north (street new - int (rows w)) (replicate (cols w) False) (horizontal_walls w))"
  "vertical_walls (resized w new) =
     map (fit_east (avenue new - int (cols w)) False)
       (fit_north (street new - int (rows w)) (replicate (cols w - 1) False) (vertical_walls w))"
  "colors (resized w new) =
     map (fit_east (avenue new - int (cols w)) (RGB 255 255 255))
       (fit_north (street new - int (rows w)) (replicate (cols w) (RGB 255 255 255)) (colors w))"
  "karel (resized w new) = karel w"
  by (simp_all add: resized_def Let_def)

lemma resized_shape:
  assumes inv: "World_inv w" and a: "0 < avenue new" and s: "0 < street new"
    and inb: "in_bounds new (position (karel w))"
  shows "rows (resized w new) = nat (street new)"
    and "cols (resized w new) = nat (avenue new)"
    and "World_inv (resized w new)"
    and "World_size (resized w new) = Inr new"
proof -
  note sh = inv_shapes [OF inv]
  note g = resized_grids [of w new]
  from inv have shapes:
    "list_all (\<lambda>row. length row = cols w) (ball_counts w)"
    "list_all (\<lambda>row. length row = cols w) (horizontal_walls w)"
    "list_all (\<lambda>row. length row = cols w - 1) (vertical_walls w)"
    "list_all (\<lambda>row. length row = cols w) (colors w)"
    by (simp_all add: World_inv_def)
  show r: "rows (resized w new) = nat (street new)"
    using s by (simp add: rows_def g fit_north_length)
  have bshape: "list_all (\<lambda>row. length row = nat (avenue new)) (ball_counts (resized w new))"
    using grid_fit_rows [OF shapes(1), of "avenue new - int (cols w)" 0
        "street new - int (rows w)" 0]
    by (simp add: g)
  have ne: "ball_counts (resized w new) \<noteq> []"
    using r s by (auto simp add: rows_def)
  show c: "cols (resized w new) = nat (avenue new)"
    using ne bshape by (rule cols_of_shape)
  have hl: "length (horizontal_walls (resized w new)) = nat (street new) - 1"
    using s sh(3,9) by (simp add: g fit_north_length nat_diff_distrib')
  have hshape: "list_all (\<lambda>row. length row = nat (avenue new)) (horizontal_walls (resized w new))"
    using grid_fit_rows [OF shapes(2), of "avenue new - int (cols w)" False
        "street new - int (rows w)" False]
    by (simp add: g)
  have vl: "length (vertical_walls (resized w new)) = nat (street new)"
    using s sh(5) by (simp add: g fit_north_length)
  have vshape: "list_all (\<lambda>row. length row = nat (avenue new) - 1) (vertical_walls (resized w new))"
  proof -
    from a sh(10) have "nat (int (cols w - 1) + (avenue new - int (cols w))) = nat (avenue new) - 1"
      by (simp add: nat_diff_distrib' of_nat_diff)
    with grid_fit_rows [OF shapes(3), of "avenue new - int (cols w)" False
        "street new - int (rows w)" False]
    show ?thesis by (simp add: g)
  qed
  have cl: "length (colors (resized w new)) = nat (street new)"
    using s sh(7) by (simp add: g fit_north_length)
  have cshape: "list_all (\<lambda>row. length row = nat (avenue new)) (colors (resized w new))"
    using grid_fit_rows [OF shapes(4), of "avenue new - int (cols w)" "RGB 255 255 255"
        "street new - int (rows w)" "RGB 255 255 255"]
    by (simp add: g)
  have nonneg: "list_all (list_all (\<lambda>n. 0 \<le> n)) (ball_counts (resized w new))"
  proof -
    have old: "list_all (list_all (\<lambda>n. 0 \<le> n)) (ball_counts w)"
      using inv by (simp add: World_inv_def)
    have "list_all (list_all (\<lambda>n. 0 \<le> n))
            (fit_north (street new - int (rows w)) (replicate (cols w) 0) (ball_counts w))"
      using old by (auto simp add: fit_north_def list_all_iff dest: in_set_dropD)
    then show ?thesis
      by (auto simp add: g fit_east_def list_all_iff dest: in_set_takeD)
  qed
  from inv have kok: "pos_ok (position (karel w))" by (simp add: World_inv_def)
  from a s have pos: "1 \<le> nat (street new)" "1 \<le> nat (avenue new)" by simp_all
  show "World_inv (resized w new)"
    using r c bshape hl hshape vl vshape cl cshape nonneg kok inb a s pos
    by (simp add: World_inv_def g(5) in_bounds_def)
  show "World_size (resized w new) = Inr new"
    using World_size_hd [OF ne] cols_hd [OF ne] r c a s
    by (simp add: rows_def)
qed


lemma resized_cells:
  assumes inv: "World_inv w" and a: "0 < avenue new" and s: "0 < street new"
    and ok: "pos_ok p" and inb: "in_bounds new p"
  shows "ball_counts (resized w new) ! nat (street new - street p - 1) ! nat (avenue p) =
           (if in_bounds \<lparr>avenue = int (cols w), street = int (rows w)\<rparr> p
            then ball_counts w ! nat (int (rows w) - street p - 1) ! nat (avenue p) else 0)"
    and "colors (resized w new) ! nat (street new - street p - 1) ! nat (avenue p) =
           (if in_bounds \<lparr>avenue = int (cols w), street = int (rows w)\<rparr> p
            then colors w ! nat (int (rows w) - street p - 1) ! nat (avenue p)
            else RGB 255 255 255)"
proof -
  note sh = inv_shapes [OF inv]
  from inv have shapes:
    "list_all (\<lambda>row. length row = cols w) (ball_counts w)"
    "list_all (\<lambda>row. length row = cols w) (colors w)"
    by (simp_all add: World_inv_def)
  from ok inb have b: "0 \<le> avenue p" "avenue p < avenue new" "0 \<le> street p" "street p < street new"
    by (simp_all add: pos_ok_def in_bounds_def)
  define ds where "ds = street new - int (rows w)"
  define da where "da = avenue new - int (cols w)"
  define i where "i = nat (street new - street p - 1)"
  define j where "j = nat (avenue p)"
  have i1: "i < nat (int (length (ball_counts w)) + ds)"
    using b sh(1) by (simp add: i_def ds_def)
  have i2: "i < nat (int (length (colors w)) + ds)"
    using b sh(7) by (simp add: i_def ds_def)
  have j1: "j < nat (int (cols w) + da)" using b by (simp add: j_def da_def)
  have cond: "(ds \<le> int i \<and> j < cols w) =
              in_bounds \<lparr>avenue = int (cols w), street = int (rows w)\<rparr> p"
    using b by (auto simp add: i_def j_def ds_def in_bounds_def)
  have idx: "ds \<le> int i \<Longrightarrow> nat (int i - ds) = nat (int (rows w) - street p - 1)"
    using b by (simp add: i_def ds_def)
  from grid_fit_nth [OF shapes(1) i1 j1, of 0] cond idx
  show "ball_counts (resized w new) ! nat (street new - street p - 1) ! nat (avenue p) =
           (if in_bounds \<lparr>avenue = int (cols w), street = int (rows w)\<rparr> p
            then ball_counts w ! nat (int (rows w) - street p - 1) ! nat (avenue p) else 0)"
    by (auto simp add: resized_grids ds_def [symmetric] da_def [symmetric]
        i_def [symmetric] j_def [symmetric])
  from grid_fit_nth [OF shapes(2) i2 j1, of "RGB 255 255 255"] cond idx
  show "colors (resized w new) ! nat (street new - street p - 1) ! nat (avenue p) =
           (if in_bounds \<lparr>avenue = int (cols w), street = int (rows w)\<rparr> p
            then colors w ! nat (int (rows w) - street p - 1) ! nat (avenue p)
            else RGB 255 255 255)"
    by (auto simp add: resized_grids ds_def [symmetric] da_def [symmetric]
        i_def [symmetric] j_def [symmetric])
qed


lemma moved_cases:
  assumes "moved p d = Inr q"
  shows "(d = north \<and> avenue q = avenue p \<and> street q = street p + 1) \<or>
         (d = south \<and> avenue q = avenue p \<and> street q = street p - 1 \<and> 0 < street p) \<or>
         (d = east \<and> avenue q = avenue p + 1 \<and> street q = street p) \<or>
         (d = west \<and> avenue q = avenue p - 1 \<and> street q = street p \<and> 0 < avenue p)"
  using assms
  by (cases d)
     (auto simp add: with_street_def with_avenue_def AvenueAndStreet_new_def split: if_splits)

lemma resized_walls:
  assumes inv: "World_inv w" and a: "0 < avenue new" and s: "0 < street new"
    and inbk: "in_bounds new (position (karel w))"
    and ok: "pos_ok p" and inb: "in_bounds new p"
    and q: "moved p d = Inr q" and qin: "in_bounds new q"
  shows "stored_wall (resized w new) p d =
           (in_bounds \<lparr>avenue = int (cols w), street = int (rows w)\<rparr> p \<and>
            in_bounds \<lparr>avenue = int (cols w), street = int (rows w)\<rparr> q \<and>
            stored_wall w p d)"
proof -
  note sh = inv_shapes [OF inv]
  from inv have shapes:
    "list_all (\<lambda>row. length row = cols w) (horizontal_walls w)"
    "list_all (\<lambda>row. length row = cols w - 1) (vertical_walls w)"
    by (simp_all add: World_inv_def)
  have r': "int (rows (resized w new)) = street new"
    using resized_shape(1) [OF inv a s inbk] s by simp
  from ok inb have b: "0 \<le> avenue p" "avenue p < avenue new" "0 \<le> street p" "street p < street new"
    by (simp_all add: pos_ok_def in_bounds_def)
  from qin have bq: "avenue q < avenue new" "street q < street new"
    by (simp_all add: in_bounds_def)
  define ds where "ds = street new - int (rows w)"
  define da where "da = avenue new - int (cols w)"
  have hlen: "int (length (horizontal_walls w)) + ds = street new - 1"
    using sh(3,9) by (simp add: ds_def of_nat_diff)
  have vlen: "int (length (vertical_walls w)) + ds = street new"
    using sh(5) by (simp add: ds_def)
  have hcol: "int (cols w) + da = avenue new" by (simp add: da_def)
  have vcol: "int (cols w - 1) + da = avenue new - 1"
    using sh(10) by (simp add: da_def of_nat_diff)
  have hw: "horizontal_walls (resized w new) ! i ! j =
            (if ds \<le> int i \<and> j < cols w then horizontal_walls w ! nat (int i - ds) ! j else False)"
    if "int i < street new - 1" and "int j < avenue new" for i j
    using grid_fit_nth [OF shapes(1), of i ds j da False] that hlen hcol
    by (simp add: resized_grids ds_def da_def)
  have vw: "vertical_walls (resized w new) ! i ! j =
            (if ds \<le> int i \<and> j < cols w - 1 then vertical_walls w ! nat (int i - ds) ! j else False)"
    if "int i < street new" and "int j < avenue new - 1" for i j
    using grid_fit_nth [OF shapes(2), of i ds j da False] that vlen vcol
    by (simp add: resized_grids ds_def da_def)
  from moved_cases [OF q] show ?thesis
  proof (elim disjE conjE)
    assume d: "d = north" and qa: "avenue q = avenue p" and qs: "street q = street p + 1"
    have "stored_wall (resized w new) p d =
          horizontal_walls (resized w new) ! nat (street new - street p - 2) ! nat (avenue p)"
      by (simp add: stored_wall_def d r')
    also have "\<dots> = (if ds \<le> int (nat (street new - street p - 2)) \<and> nat (avenue p) < cols w
                      then horizontal_walls w ! nat (int (nat (street new - street p - 2)) - ds)
                             ! nat (avenue p)
                      else False)"
      using b bq qs by (intro hw) simp_all
    also have "\<dots> = (if avenue p < int (cols w) \<and> street p + 1 < int (rows w)
                      then horizontal_walls w ! nat (int (rows w) - street p - 2) ! nat (avenue p)
                      else False)"
    proof -
      have c: "(ds \<le> int (nat (street new - street p - 2)) \<and> nat (avenue p) < cols w) =
               (avenue p < int (cols w) \<and> street p + 1 < int (rows w))"
        using b bq qs by (auto simp add: ds_def)
      have "nat (int (nat (street new - street p - 2)) - ds) = nat (int (rows w) - street p - 2)"
        using b bq qs by (simp add: ds_def)
      with c show ?thesis by (simp only:)
    qed
    finally show ?thesis
      using b qa qs by (auto simp add: in_bounds_def stored_wall_def d)
  next
    assume d: "d = south" and qa: "avenue q = avenue p" and qs: "street q = street p - 1"
      and pos: "0 < street p"
    have "stored_wall (resized w new) p d =
          horizontal_walls (resized w new) ! nat (street new - street p - 1) ! nat (avenue p)"
      by (simp add: stored_wall_def d r')
    also have "\<dots> = (if ds \<le> int (nat (street new - street p - 1)) \<and> nat (avenue p) < cols w
                      then horizontal_walls w ! nat (int (nat (street new - street p - 1)) - ds)
                             ! nat (avenue p)
                      else False)"
      using b pos by (intro hw) simp_all
    also have "\<dots> = (if avenue p < int (cols w) \<and> street p < int (rows w)
                      then horizontal_walls w ! nat (int (rows w) - street p - 1) ! nat (avenue p)
                      else False)"
    proof -
      have c: "(ds \<le> int (nat (street new - street p - 1)) \<and> nat (avenue p) < cols w) =
               (avenue p < int (cols w) \<and> street p < int (rows w))"
        using b by (auto simp add: ds_def)
      have "nat (int (nat (street new - street p - 1)) - ds) = nat (int (rows w) - street p - 1)"
        using b by (simp add: ds_def)
      with c show ?thesis by (simp only:)
    qed
    finally show ?thesis
      using b qa qs pos by (auto simp add: in_bounds_def stored_wall_def d)
  next
    assume d: "d = east" and qa: "avenue q = avenue p + 1" and qs: "street q = street p"
    have "stored_wall (resized w new) p d =
          vertical_walls (resized w new) ! nat (street new - street p - 1) ! nat (avenue p)"
      by (simp add: stored_wall_def d r')
    also have "\<dots> = (if ds \<le> int (nat (street new - street p - 1)) \<and> nat (avenue p) < cols w - 1
                      then vertical_walls w ! nat (int (nat (street new - street p - 1)) - ds)
                             ! nat (avenue p)
                      else False)"
      using b bq qa by (intro vw) simp_all
    also have "\<dots> = (if avenue p + 1 < int (cols w) \<and> street p < int (rows w)
                      then vertical_walls w ! nat (int (rows w) - street p - 1) ! nat (avenue p)
                      else False)"
    proof -
      have c: "(ds \<le> int (nat (street new - street p - 1)) \<and> nat (avenue p) < cols w - 1) =
               (avenue p + 1 < int (cols w) \<and> street p < int (rows w))"
        using b sh(10) by (auto simp add: ds_def)
      have "nat (int (nat (street new - street p - 1)) - ds) = nat (int (rows w) - street p - 1)"
        using b by (simp add: ds_def)
      with c show ?thesis by (simp only:)
    qed
    finally show ?thesis
      using b qa qs by (auto simp add: in_bounds_def stored_wall_def d)
  next
    assume d: "d = west" and qa: "avenue q = avenue p - 1" and qs: "street q = street p"
      and pos: "0 < avenue p"
    have "stored_wall (resized w new) p d =
          vertical_walls (resized w new) ! nat (street new - street p - 1) ! nat (avenue p - 1)"
      by (simp add: stored_wall_def d r')
    also have "\<dots> = (if ds \<le> int (nat (street new - street p - 1)) \<and> nat (avenue p - 1) < cols w - 1
                      then vertical_walls w ! nat (int (nat (street new - street p - 1)) - ds)
                             ! nat (avenue p - 1)
                      else False)"
      using b pos by (intro vw) simp_all
    also have "\<dots> = (if avenue p < int (cols w) \<and> street p < int (rows w)
                      then vertical_walls w ! nat (int (rows w) - street p - 1) ! nat (avenue p - 1)
                      else False)"
    proof -
      have c: "(ds \<le> int (nat (street new - street p - 1)) \<and> nat (avenue p - 1) < cols w - 1) =
               (avenue p < int (cols w) \<and> street p < int (rows w))"
        using b pos sh(10) by (auto simp add: ds_def)
      have "nat (int (nat (street new - street p - 1)) - ds) = nat (int (rows w) - street p - 1)"
        using b by (simp add: ds_def)
      with c show ?thesis by (simp only:)
    qed
    finally show ?thesis
      using b qa qs pos by (auto simp add: in_bounds_def stored_wall_def d)
  qed
qed


lemma resized_same: "World_inv w \<Longrightarrow> resized w \<lparr>avenue = int (cols w), street = int (rows w)\<rparr> = w"
  by (simp add: resized_def fit_north_def fit_east_0)

text \<open>
  C6, as the claim states it: every wall query at a position valid in both sizes would
  return what it returned before. East of the only cell of a 1 by 1 World is the
  boundary, which is blocked; after the World has grown to two avenues the same query
  reads a stored wall, which is clear.
\<close>

theorem size_setter_grows_boundary_counterexample:
  "World_inv world_1x1_one_ball \<and>
   in_bounds \<lparr>avenue = 1, street = 1\<rparr> \<lparr>avenue = 0, street = 0\<rparr> \<and>
   in_bounds \<lparr>avenue = 2, street = 1\<rparr> \<lparr>avenue = 0, street = 0\<rparr> \<and>
   World_size world_1x1_one_ball = Inr \<lparr>avenue = 1, street = 1\<rparr> \<and>
   is_blocked world_1x1_one_ball (Some \<lparr>avenue = 0, street = 0\<rparr>) (Some east) = Inr True \<and>
   (\<exists>w'. size_setter world_1x1_one_ball \<lparr>avenue = 2, street = 1\<rparr> = Inr w' \<and>
         World_size w' = Inr \<lparr>avenue = 2, street = 1\<rparr> \<and>
         is_blocked w' (Some \<lparr>avenue = 0, street = 0\<rparr>) (Some east) = Inr False)"
  by (simp add: World_inv_def rows_def cols_def pos_ok_def world_1x1_one_ball_def
      Karel_default_def in_bounds_def World_size_def getitem_def getitem2_def norm_index_def
      AvenueAndStreet_new_def is_blocked_def pos_or_karel_def dir_or_karel_def list_index_def
      size_setter_def shrink_street_def grow_street_def shrink_avenue_def grow_avenue_def
      Let_def)

text \<open>
  C6, amended. For every World that satisfies the invariants and every new size with
  both dimensions at least 1 that keeps the robot in bounds, setting \<open>size\<close> succeeds,
  keeps the invariants and the robot, and anchors the grid at the south-west corner:
  at every position valid in the old and the new size the ball count and the colour
  are as before, and \<open>is_blocked\<close> is as before for every edge whose two cells are both
  valid in both sizes; a cell that is valid only in the new size has 0 balls and is
  white, and every edge between two cells of the new grid of which one is new is
  clear. So rows come and go at the north edge only and columns at the east edge only.
  Setting the current size changes nothing.
\<close>

theorem size_setter_preserves_common_cells:
  assumes inv: "World_inv w" and old: "World_size w = Inr old"
    and a: "0 < avenue new" and s: "0 < street new"
    and inbk: "in_bounds new (position (karel w))"
  shows "\<exists>w'. size_setter w new = Inr w' \<and> World_inv w' \<and> World_size w' = Inr new \<and>
           karel w' = karel w \<and>
           (\<forall>p. pos_ok p \<and> in_bounds new p \<longrightarrow>
              ball_count w' (Some p) =
                (if in_bounds old p then ball_count w (Some p) else Inr 0) \<and>
              color_at w' (Some p) =
                (if in_bounds old p then color_at w (Some p) else Inr (RGB 255 255 255))) \<and>
           (\<forall>p d q. pos_ok p \<and> in_bounds new p \<and> moved p d = Inr q \<and> in_bounds new q \<longrightarrow>
              is_blocked w' (Some p) (Some d) =
                (if in_bounds old p \<and> in_bounds old q then is_blocked w (Some p) (Some d)
                 else Inr False)) \<and>
           (new = old \<longrightarrow> w' = w)"
proof -
  let ?w' = "resized w new"
  have oldeq: "old = \<lparr>avenue = int (cols w), street = int (rows w)\<rparr>"
    using World_size_inv [OF inv] old by simp
  have run: "size_setter w new = Inr ?w'" by (rule size_setter_resized [OF inv a s inbk])
  note rs = resized_shape [OF inv a s inbk]
  have inv': "World_inv ?w'" by (rule rs(3))
  have sz': "World_size ?w' = Inr new" by (rule rs(4))
  have k': "karel ?w' = karel w" by (rule resized_grids(5))
  from a s have newok: "pos_ok new" by (simp add: pos_ok_def)
  have oldok: "pos_ok old" by (rule size_pos_ok [OF old])
  have cells: "ball_count ?w' (Some p) =
                (if in_bounds old p then ball_count w (Some p) else Inr 0) \<and>
              color_at ?w' (Some p) =
                (if in_bounds old p then color_at w (Some p) else Inr (RGB 255 255 255))"
    if ok: "pos_ok p" and inb: "in_bounds new p" for p
  proof -
    have pp: "p = pos_or_karel v (Some p)" for v by (simp add: pos_or_karel_def)
    note rc = resized_cells [OF inv a s ok inb]
    have b': "ball_count ?w' (Some p) =
              Inr (ball_counts ?w' ! nat (street new - street p - 1) ! nat (avenue p))"
      by (rule ball_count_inv [OF inv' sz' pp ok inb])
    have c': "color_at ?w' (Some p) =
              Inr (colors ?w' ! nat (street new - street p - 1) ! nat (avenue p))"
      by (rule color_at_inv [OF inv' sz' pp ok inb])
    show ?thesis
    proof (cases "in_bounds old p")
      case True
      have "ball_count w (Some p) =
              Inr (ball_counts w ! nat (street old - street p - 1) ! nat (avenue p))"
        by (rule ball_count_inv [OF inv old pp ok True])
      moreover have "color_at w (Some p) =
              Inr (colors w ! nat (street old - street p - 1) ! nat (avenue p))"
        by (rule color_at_inv [OF inv old pp ok True])
      ultimately show ?thesis using True b' c' rc by (simp add: oldeq)
    next
      case False
      then show ?thesis using b' c' rc by (simp add: oldeq)
    qed
  qed
  have walls: "is_blocked ?w' (Some p) (Some d) =
                (if in_bounds old p \<and> in_bounds old q then is_blocked w (Some p) (Some d)
                 else Inr False)"
    if ok: "pos_ok p" and inb: "in_bounds new p" and q: "moved p d = Inr q"
      and qin: "in_bounds new q" for p d q
  proof -
    have pp: "p = pos_or_karel v (Some p)" for v by (simp add: pos_or_karel_def)
    have dd: "d = dir_or_karel v (Some d)" for v by (simp add: dir_or_karel_def)
    have "\<not> outward_edge new p d"
      using outward_edge_iff_neighbour_outside [OF ok newok inb, of d] q qin by simp
    then have n: "is_blocked ?w' (Some p) (Some d) = Inr (stored_wall ?w' p d)"
      using is_blocked_inv [OF inv' sz' pp dd ok inb] by simp
    note rw = resized_walls [OF inv a s inbk ok inb q qin]
    show ?thesis
    proof (cases "in_bounds old p \<and> in_bounds old q")
      case True
      then have "\<not> outward_edge old p d"
        using outward_edge_iff_neighbour_outside [OF ok oldok, of d] q by simp
      then have "is_blocked w (Some p) (Some d) = Inr (stored_wall w p d)"
        using is_blocked_inv [OF inv old pp dd ok] True by simp
      with True n rw show ?thesis by (simp add: oldeq)
    next
      case False
      with n rw show ?thesis by (auto simp add: oldeq)
    qed
  qed
  have same: "new = old \<longrightarrow> ?w' = w"
    using resized_same [OF inv] by (simp add: oldeq)
  from run inv' sz' k' cells walls same show ?thesis by blast
qed

theorem size_setter_preserves_common_cells_witness:
  "World_inv world_2x1_wall \<and>
   World_size world_2x1_wall = Inr \<lparr>avenue = 2, street = 1\<rparr> \<and>
   in_bounds \<lparr>avenue = 3, street = 2\<rparr> (position (karel world_2x1_wall)) \<and>
   (\<exists>w'. size_setter world_2x1_wall \<lparr>avenue = 3, street = 2\<rparr> = Inr w' \<and>
         ball_count w' (Some \<lparr>avenue = 0, street = 0\<rparr>) = Inr 3 \<and>
         ball_count w' (Some \<lparr>avenue = 2, street = 1\<rparr>) = Inr 0 \<and>
         color_at w' (Some \<lparr>avenue = 0, street = 0\<rparr>) = Inr (RGB 255 0 0) \<and>
         is_blocked w' (Some \<lparr>avenue = 0, street = 0\<rparr>) (Some east) = Inr True \<and>
         is_blocked w' (Some \<lparr>avenue = 0, street = 0\<rparr>) (Some north) = Inr False)"
proof -
  have inv: "World_inv world_2x1_wall"
    by (simp add: World_inv_def world_2x1_wall_def Karel_default_def rows_def cols_def pos_ok_def)
  have old: "World_size world_2x1_wall = Inr \<lparr>avenue = 2, street = 1\<rparr>"
    by (simp add: world_2x1_wall_def World_size_nonempty)
  have a: "0 < avenue \<lparr>avenue = 3, street = 2\<rparr>" and s: "0 < street \<lparr>avenue = 3, street = 2\<rparr>"
    by simp_all
  have inbk: "in_bounds \<lparr>avenue = 3, street = 2\<rparr> (position (karel world_2x1_wall))"
    by (simp add: in_bounds_def world_2x1_wall_def Karel_default_def)
  have b0: "ball_count world_2x1_wall (Some \<lparr>avenue = 0, street = 0\<rparr>) = Inr 3"
    and c0: "color_at world_2x1_wall (Some \<lparr>avenue = 0, street = 0\<rparr>) = Inr (RGB 255 0 0)"
    and e0: "is_blocked world_2x1_wall (Some \<lparr>avenue = 0, street = 0\<rparr>) (Some east) = Inr True"
    by (simp_all add: ball_count_def color_at_def is_blocked_def world_2x1_wall_def
        Karel_default_def World_size_def list_index_def in_bounds_def pos_or_karel_def
        dir_or_karel_def getitem2_def getitem_def norm_index_def AvenueAndStreet_new_def Let_def)
  have me: "moved \<lparr>avenue = 0, street = 0\<rparr> east = Inr \<lparr>avenue = 1, street = 0\<rparr>"
    and mn: "moved \<lparr>avenue = 0, street = 0\<rparr> north = Inr \<lparr>avenue = 0, street = 1\<rparr>"
    by (simp_all add: with_avenue_def with_street_def AvenueAndStreet_new_def)
  from size_setter_preserves_common_cells [OF inv old a s inbk]
  obtain w' where run: "size_setter world_2x1_wall \<lparr>avenue = 3, street = 2\<rparr> = Inr w'"
    and cells: "\<And>p. pos_ok p \<Longrightarrow> in_bounds \<lparr>avenue = 3, street = 2\<rparr> p \<Longrightarrow>
          ball_count w' (Some p) =
            (if in_bounds \<lparr>avenue = 2, street = 1\<rparr> p
             then ball_count world_2x1_wall (Some p) else Inr 0) \<and>
          color_at w' (Some p) =
            (if in_bounds \<lparr>avenue = 2, street = 1\<rparr> p
             then color_at world_2x1_wall (Some p) else Inr (RGB 255 255 255))"
    and walls: "\<And>p d q. pos_ok p \<Longrightarrow> in_bounds \<lparr>avenue = 3, street = 2\<rparr> p \<Longrightarrow>
          moved p d = Inr q \<Longrightarrow> in_bounds \<lparr>avenue = 3, street = 2\<rparr> q \<Longrightarrow>
          is_blocked w' (Some p) (Some d) =
            (if in_bounds \<lparr>avenue = 2, street = 1\<rparr> p \<and> in_bounds \<lparr>avenue = 2, street = 1\<rparr> q
             then is_blocked world_2x1_wall (Some p) (Some d) else Inr False)"
    by blast
  have "ball_count w' (Some \<lparr>avenue = 0, street = 0\<rparr>) = Inr 3"
    and "color_at w' (Some \<lparr>avenue = 0, street = 0\<rparr>) = Inr (RGB 255 0 0)"
    using cells [of "\<lparr>avenue = 0, street = 0\<rparr>"] b0 c0 by (simp_all add: pos_ok_def in_bounds_def)
  moreover have "ball_count w' (Some \<lparr>avenue = 2, street = 1\<rparr>) = Inr 0"
    using cells [of "\<lparr>avenue = 2, street = 1\<rparr>"] by (simp add: pos_ok_def in_bounds_def)
  moreover have "is_blocked w' (Some \<lparr>avenue = 0, street = 0\<rparr>) (Some east) = Inr True"
    using walls [OF _ _ me] e0 by (simp add: pos_ok_def in_bounds_def)
  moreover have "is_blocked w' (Some \<lparr>avenue = 0, street = 0\<rparr>) (Some north) = Inr False"
    using walls [OF _ _ mn] by (simp add: pos_ok_def in_bounds_def)
  ultimately show ?thesis using run inv old inbk by blast
qed

section \<open>Assigning the grids\<close>

lemmas eval_defs =
  World_inv_def rows_def cols_def pos_ok_def world_2x1_def Karel_default_def
  ball_counts_setter_def horizontal_walls_setter_def vertical_walls_setter_def
  colors_setter_def World_size_def getitem_def norm_index_def AvenueAndStreet_new_def
  two_d_arr_size_def size_setter_def shrink_street_def grow_street_def shrink_avenue_def
  grow_avenue_def in_bounds_def Let_def

text \<open>
  C2. Every mutation of a World, assigning a grid or \<open>None\<close> to one of the four grid
  attributes included, should preserve the invariants. On the World with one street
  and two avenues, assigning \<open>None\<close> to any of the four attributes builds the default
  grid with streets and avenues exchanged, and assigning a ball-count grid with a
  negative entry stores it unchecked: each assignment succeeds and leaves a World that
  breaks the invariants.
\<close>

theorem grid_setters_break_invariants:
  "World_inv world_2x1 \<and>
   (\<exists>w'. ball_counts_setter world_2x1 None = Inr w' \<and> ball_counts w' = [[0], [0]] \<and>
         horizontal_walls w' = [] \<and> \<not> World_inv w') \<and>
   (\<exists>w'. horizontal_walls_setter world_2x1 None = Inr w' \<and>
         horizontal_walls w' = [[False]] \<and> \<not> World_inv w') \<and>
   (\<exists>w'. vertical_walls_setter world_2x1 None = Inr w' \<and>
         vertical_walls w' = [[], []] \<and> \<not> World_inv w') \<and>
   (\<exists>w'. colors_setter world_2x1 None = Inr w' \<and>
         colors w' = [[RGB 255 255 255], [RGB 255 255 255]] \<and> \<not> World_inv w') \<and>
   (\<exists>w'. ball_counts_setter world_2x1 (Some [[- 1, 0]]) = Inr w' \<and>
         ball_counts w' = [[- 1, 0]] \<and> \<not> World_inv w')"
  by (simp add: eval_defs numeral_2_eq_2)

end
